theory Spec2Isabelle
  imports Main
begin

section \<open>Labels, axes, keys and resolved indexers\<close>

text \<open>
  A shallow embedding of \<^verbatim>\<open>pandas/core/indexing.py\<close>. Python integers are \<open>int\<close>,
  an exception is the \<open>Inl\<close> side of a sum, and a function that mutates its target
  returns the target as it stands when the function returns or raises.

  Scope of the embedding: axes are flat label sets (the \<^verbatim>\<open>MultiIndex\<close> branches of the
  source are not taken), labels are integers or strings (no float labels), and a
  container is a 1-D series or a 2-D table. A table is held by its host in one block of a
  single dtype or in several blocks (\<^verbatim>\<open>_is_mixed_type\<close>); an assignment to the second kind
  takes the split path of \<^verbatim>\<open>_setitem_with_indexer\<close>.
\<close>

datatype label = LInt int | LStr string

datatype kind =
  KInteger | KFloating | KString | KMixed | KMixedInteger | KMixedIntegerFloat | KEmpty
  | KDatetime

text \<open>The exceptions the module raises or lets through, one constructor per exception
  class; the two \<^verbatim>\<open>IndexError\<close>s are told apart by their message.\<close>

datatype error =
  KeyError | TypeError | ValueError | IndexingError | NotImplementedError | AttributeError
  | IndexError_cannot_enlarge | IndexError_out_of_bounds | AssertionError | ZeroDivisionError
  | Unmodelled

text \<open>An axis (\<^verbatim>\<open>Index\<close>): its labels in order and its cached \<^verbatim>\<open>inferred_type\<close>.\<close>

record index =
  labels :: "label list"
  inferred_type :: kind

text \<open>A raw key for one axis: a scalar, a slice \<^verbatim>\<open>start:stop:step\<close>, a list-like of
  labels or integers, or an unlabeled boolean sequence.\<close>

datatype key =
  KScalar label
  | KSlice "label option" "label option" "int option"
  | KList "label list"
  | KMask "bool list"

text \<open>What \<^verbatim>\<open>_convert_to_indexer\<close> returns: an integer position, a slice (the key's own
  slice object when it is passed through), an integer array, a boolean array, a list-like
  passed through with non-integer entries, or the dict \<^verbatim>\<open>{'key': k}\<close> of a missing key.\<close>

datatype indexer =
  IInt int
  | ISlice "label option" "label option" "int option"
  | IList "int list"
  | IMask "bool list"
  | IListRaw "label list"
  | IMissing label

text \<open>A Python argument that is either a tuple or a single object.\<close>

datatype 'a arg = Single 'a | Tuple "'a list"

datatype policy = Ix | Loc | ILoc

fun is_integer :: "label \<Rightarrow> bool" where
  "is_integer (LInt _) = True"
| "is_integer (LStr _) = False"

fun is_float :: "label \<Rightarrow> bool" where
  "is_float _ = False"

text \<open>\<^verbatim>\<open>_is_integer_index\<close>.\<close>

definition is_integer_index :: "index \<Rightarrow> bool" where
  "is_integer_index ax = (inferred_type ax = KInteger)"

text \<open>The test \<^verbatim>\<open>'mixed' in ltype\<close> on the kind's name.\<close>

fun mixed_in :: "kind \<Rightarrow> bool" where
  "mixed_in KMixed = True"
| "mixed_in KMixedInteger = True"
| "mixed_in KMixedIntegerFloat = True"
| "mixed_in _ = False"

text \<open>Modelled from the spec: \<^verbatim>\<open>lib.infer_dtype\<close>, which computes \<^verbatim>\<open>inferred_type\<close>, is not
  under src/. The spec names the kinds; over integer and string labels they are
  empty, integer, string and mixed-integer.\<close>

definition infer_dtype :: "label list \<Rightarrow> kind" where
  "infer_dtype ls =
     (if ls = [] then KEmpty
      else if list_all is_integer ls then KInteger
      else if list_all (\<lambda>l. \<not> is_integer l) ls then KString
      else KMixedInteger)"

text \<open>The constructor \<^verbatim>\<open>Index(values)\<close>.\<close>

definition Index :: "label list \<Rightarrow> index" where
  "Index ls = \<lparr>labels = ls, inferred_type = infer_dtype ls\<rparr>"

text \<open>The positions at which a label stands on an axis.\<close>

definition positions_of :: "label list \<Rightarrow> label \<Rightarrow> nat list" where
  "positions_of ls k = filter (\<lambda>i. ls ! i = k) [0..<length ls]"

text \<open>Modelled from the spec: \<^verbatim>\<open>Index.get_loc\<close> is not under src/. The spec gives
  \<^verbatim>\<open>get_loc(label) -> position | positions | boolean_mask\<close> and a failure for an absent
  label: a label standing once resolves to its position, a label standing several times
  to the boolean mask of its positions.\<close>

definition get_loc :: "index \<Rightarrow> label \<Rightarrow> error + indexer" where
  "get_loc ax k =
     (case positions_of (labels ax) k of
        [] \<Rightarrow> Inl KeyError
      | [p] \<Rightarrow> Inr (IInt (int p))
      | _ \<Rightarrow> Inr (IMask (map (\<lambda>l. l = k) (labels ax))))"

text \<open>\<^verbatim>\<open>labels.get_loc(obj)\<close> on a raw key: a slice or a list is unhashable.\<close>

fun get_loc_key :: "index \<Rightarrow> key \<Rightarrow> error + indexer" where
  "get_loc_key ax (KScalar k) = get_loc ax k"
| "get_loc_key ax _ = Inl TypeError"

text \<open>Modelled from the spec: \<^verbatim>\<open>Index.slice_indexer\<close> is not under src/. The spec makes
  both endpoints of a label slice inclusive and requires that they exist: a bound is
  resolved by exact lookup of a label standing once, a missing bound is the end of the
  axis. Slicing a sorted axis at an absent label is not modelled.\<close>

definition slice_bound :: "index \<Rightarrow> label option \<Rightarrow> int \<Rightarrow> int \<Rightarrow> error + int" where
  "slice_bound ax b dflt off =
     (case b of
        None \<Rightarrow> Inr dflt
      | Some l \<Rightarrow>
          (case get_loc ax l of
             Inr (IInt p) \<Rightarrow> Inr (p + off)
           | Inr _ \<Rightarrow> Inl KeyError
           | Inl e \<Rightarrow> Inl e))"

definition slice_indexer :: "index \<Rightarrow> label option \<Rightarrow> label option \<Rightarrow> int option \<Rightarrow> error + indexer" where
  "slice_indexer ax start stop step =
     (case slice_bound ax start 0 0 of
        Inl e \<Rightarrow> Inl e
      | Inr s \<Rightarrow>
          (case slice_bound ax stop (int (length (labels ax))) 1 of
             Inl e \<Rightarrow> Inl e
           | Inr e \<Rightarrow> Inr (ISlice (Some (LInt s)) (Some (LInt e)) step)))"

text \<open>Modelled from the spec: \<^verbatim>\<open>Index.get_indexer\<close> and \<^verbatim>\<open>get_indexer_non_unique\<close> are not
  under src/. They give the position of every
  requested label, \<open>-1\<close> for an absent one; on an axis with duplicates every position of
  the label.\<close>

definition get_indexer :: "index \<Rightarrow> label list \<Rightarrow> int list" where
  "get_indexer ax ks =
     map (\<lambda>k. case positions_of (labels ax) k of [] \<Rightarrow> - 1 | p # _ \<Rightarrow> int p) ks"

definition get_indexer_non_unique :: "index \<Rightarrow> label list \<Rightarrow> int list" where
  "get_indexer_non_unique ax ks =
     concat (map (\<lambda>k. case positions_of (labels ax) k of
                          [] \<Rightarrow> [- 1] | ps \<Rightarrow> map int ps) ks)"

text \<open>\<^verbatim>\<open>key.nonzero()\<close> of a boolean array.\<close>

definition nonzero :: "bool list \<Rightarrow> int list" where
  "nonzero bs = map int (filter (\<lambda>i. bs ! i) [0..<length bs])"

subsection \<open>Slice predicates\<close>

text \<open>\<^verbatim>\<open>_is_index_slice\<close>, \<^verbatim>\<open>_is_float_slice\<close>, \<^verbatim>\<open>_is_null_slice\<close>, \<^verbatim>\<open>_need_slice\<close>.\<close>

definition crit :: "(label \<Rightarrow> bool) \<Rightarrow> label option \<Rightarrow> bool" where
  "crit valid v = (case v of None \<Rightarrow> True | Some x \<Rightarrow> valid x)"

definition is_index_slice :: "label option \<Rightarrow> label option \<Rightarrow> bool" where
  "is_index_slice start stop =
     (\<not> (start = None \<and> stop = None) \<and> crit is_integer start \<and> crit is_integer stop)"

definition is_float_slice :: "label option \<Rightarrow> label option \<Rightarrow> bool" where
  "is_float_slice start stop =
     (\<not> (start = None \<and> stop = None) \<and> crit is_float start \<and> crit is_float stop)"

fun is_null_slice :: "indexer \<Rightarrow> bool" where
  "is_null_slice (ISlice None None None) = True"
| "is_null_slice _ = False"

definition need_slice :: "label option \<Rightarrow> label option \<Rightarrow> int option \<Rightarrow> bool" where
  "need_slice start stop step =
     (start \<noteq> None \<or> stop \<noteq> None \<or> (step \<noteq> None \<and> step \<noteq> Some 1))"

subsection \<open>\<^verbatim>\<open>_NDFrameIndexer._convert_to_indexer\<close>\<close>

text \<open>The block "last ditch effort: if we are mixed and have integers": the lookups of the
  bounds in order, the flag cleared when both succeed, and the handler of
  \<^verbatim>\<open>KeyError\<close>, which re-raises on a mixed-integer-float axis only.\<close>

definition probe :: "index \<Rightarrow> label option \<Rightarrow> error + unit" where
  "probe ax b =
     (case b of
        None \<Rightarrow> Inr ()
      | Some l \<Rightarrow> (case get_loc ax l of Inl e \<Rightarrow> Inl e | Inr _ \<Rightarrow> Inr ()))"

definition last_ditch :: "index \<Rightarrow> label option \<Rightarrow> label option \<Rightarrow> bool \<Rightarrow> error + bool" where
  "last_ditch ax start stop position_slice =
     (if position_slice \<and> mixed_in (inferred_type ax) then
        (case probe ax start of
           Inl e \<Rightarrow> if inferred_type ax = KMixedIntegerFloat then Inl e else Inr position_slice
         | Inr _ \<Rightarrow>
             (case probe ax stop of
                Inl e \<Rightarrow>
                  if inferred_type ax = KMixedIntegerFloat then Inl e else Inr position_slice
              | Inr _ \<Rightarrow> Inr False))
      else Inr position_slice)"

definition convert_slice :: "index \<Rightarrow> label option \<Rightarrow> label option \<Rightarrow> int option \<Rightarrow> error + indexer" where
  "convert_slice ax start stop step =
     (let ltype = inferred_type ax;
          float_slice = (ltype = KFloating \<and> is_float_slice start stop);
          int_slice = is_index_slice start stop;
          null_slice = (start = None \<and> stop = None);
          position_slice = (int_slice \<and> ltype \<noteq> KInteger \<and> \<not> float_slice)
      in case last_ditch ax start stop position_slice of
           Inl e \<Rightarrow> Inl e
         | Inr position_slice' \<Rightarrow>
             if null_slice \<or> position_slice' then Inr (ISlice start stop step)
             else
               (case slice_indexer ax start stop step of
                  Inr r \<Rightarrow> Inr r
                | Inl e \<Rightarrow>
                    if is_index_slice start stop then
                      (if ltype = KInteger then Inl e else Inr (ISlice start stop step))
                    else Inl e))"

text \<open>The list-like branch. \<^verbatim>\<open>_is_integer_dtype(objarr)\<close> holds of a non-empty array of
  integers.\<close>

definition is_integer_dtype :: "label list \<Rightarrow> bool" where
  "is_integer_dtype ks = (ks \<noteq> [] \<and> list_all is_integer ks)"

fun the_int :: "label \<Rightarrow> int" where
  "the_int (LInt i) = i"
| "the_int (LStr _) = 0"

definition convert_list :: "index \<Rightarrow> label list \<Rightarrow> error + indexer" where
  "convert_list ax ks =
     (if is_integer_dtype ks \<and> \<not> is_integer_index ax then
        Inr (IList (map (\<lambda>k. if the_int k < 0 then int (length (labels ax)) + the_int k
                              else the_int k) ks))
      else
        (let indexer = (if distinct (labels ax) then get_indexer ax ks
                        else get_indexer_non_unique ax ks)
         in if list_ex (\<lambda>i. i = - 1) indexer then Inl KeyError else Inr (IList indexer)))"

text \<open>The function itself, for the legacy-mixed and the label-only accessor (the latter
  inherits it). The order is the source's: the integer-on-non-integer-axis return, the
  first \<^verbatim>\<open>get_loc\<close> whose \<^verbatim>\<open>KeyError\<close> and \<^verbatim>\<open>TypeError\<close> are swallowed, then the slice,
  list-like and scalar branches.\<close>

definition convert_to_indexer :: "index \<Rightarrow> key \<Rightarrow> bool \<Rightarrow> error + indexer" where
  "convert_to_indexer ax obj is_setter =
     (case (case obj of
              KScalar (LInt i) \<Rightarrow> if \<not> is_integer_index ax then Some (IInt i) else None
            | _ \<Rightarrow> None) of
        Some r \<Rightarrow> Inr r
      | None \<Rightarrow>
          (case get_loc_key ax obj of
             Inr r \<Rightarrow> Inr r
           | Inl _ \<Rightarrow>
               (case obj of
                  KSlice start stop step \<Rightarrow> convert_slice ax start stop step
                | KMask bs \<Rightarrow> Inr (IList (nonzero bs))
                | KList ks \<Rightarrow> convert_list ax ks
                | KScalar k \<Rightarrow>
                    (case get_loc ax k of
                       Inr r \<Rightarrow> Inr r
                     | Inl e \<Rightarrow> if is_setter then Inr (IMissing k) else Inl e))))"

text \<open>\<^verbatim>\<open>_iLocIndexer._has_valid_type\<close> and \<^verbatim>\<open>_iLocIndexer._convert_to_indexer\<close>: a valid
  key is passed through as it is.\<close>

fun iloc_has_valid_type :: "key \<Rightarrow> bool" where
  "iloc_has_valid_type (KMask _) = True"
| "iloc_has_valid_type (KSlice _ _ _) = True"
| "iloc_has_valid_type (KList _) = True"
| "iloc_has_valid_type (KScalar k) = is_integer k"

fun iloc_convert_to_indexer :: "key \<Rightarrow> error + indexer" where
  "iloc_convert_to_indexer (KMask bs) = Inr (IMask bs)"
| "iloc_convert_to_indexer (KSlice a b c) = Inr (ISlice a b c)"
| "iloc_convert_to_indexer (KList ks) =
     (if list_all is_integer ks then Inr (IList (map the_int ks)) else Inr (IListRaw ks))"
| "iloc_convert_to_indexer (KScalar (LInt i)) = Inr (IInt i)"
| "iloc_convert_to_indexer (KScalar (LStr _)) = Inl ValueError"

definition convert_to_indexer_of :: "policy \<Rightarrow> index \<Rightarrow> key \<Rightarrow> bool \<Rightarrow> error + indexer" where
  "convert_to_indexer_of pol ax obj is_setter =
     (case pol of
        ILoc \<Rightarrow> iloc_convert_to_indexer obj
      | _ \<Rightarrow> convert_to_indexer ax obj is_setter)"

subsection \<open>Missing-key helpers\<close>


text \<open>Modelled from the spec: \<^verbatim>\<open>Index.insert\<close> is not under src/. The spec's AxisEnlarger
  appends the label to the end of the label order; the insertion refuses (so that the
  caller's \<^verbatim>\<open>except\<close> rebuilds the axis) when the label is not of the axis's kind.\<close>

definition index_insert :: "index \<Rightarrow> nat \<Rightarrow> label \<Rightarrow> error + index" where
  "index_insert ax loc k =
     (if inferred_type ax = KInteger \<and> \<not> is_integer k then Inl TypeError
      else Inr (Index (take loc (labels ax) @ [k] @ drop loc (labels ax))))"

text \<open>\<^verbatim>\<open>_safe_append_to_index\<close>.\<close>

definition safe_append_to_index :: "index \<Rightarrow> label \<Rightarrow> index" where
  "safe_append_to_index ax k =
     (case index_insert ax (length (labels ax)) k of
        Inr r \<Rightarrow> r
      | Inl _ \<Rightarrow> Index (labels ax @ [k]))"

section \<open>The target containers and their storage\<close>

text \<open>A cell holds a number or the missing fill. A container is a 1-D series (an axis and
  its cells) or a 2-D table (a row axis, a column axis and the rows of cells). The host's
  property \<^verbatim>\<open>_is_mixed_type\<close> is not under src/: it is taken as part of the table, a
  \<open>DataFrame\<close> being a table held in one block and a \<open>MixedFrame\<close> a table of mixed dtype,
  held in several blocks. Every operation of the host modelled below treats the two alike
  and returns a table of the kind it was given.\<close>

datatype cell = NaN | Val int

datatype ndframe =
  Series index "cell list"
  | DataFrame index index "cell list list"
  | MixedFrame index index "cell list list"

text \<open>What a read returns: a single cell, an unlabeled array of cells, or a container.\<close>

datatype result = RScalar cell | RArray "cell list" | RObj ndframe

text \<open>The right-hand side of an assignment: an unlabeled scalar, an unlabeled sequence, a
  labeled vector (a series), or a list of lists.\<close>

datatype rhs =
  VScalar cell | VList "cell list" | VSeries index "cell list" | VLists "cell list list"

fun ndim :: "ndframe \<Rightarrow> nat" where
  "ndim (Series _ _) = 1"
| "ndim (DataFrame _ _ _) = 2"
| "ndim (MixedFrame _ _ _) = 2"

fun axes :: "ndframe \<Rightarrow> index list" where
  "axes (Series ix _) = [ix]"
| "axes (DataFrame ix cols _) = [ix, cols]"
| "axes (MixedFrame ix cols _) = [ix, cols]"

fun info_axis_number :: "ndframe \<Rightarrow> nat" where
  "info_axis_number (Series _ _) = 0"
| "info_axis_number (DataFrame _ _ _) = 1"
| "info_axis_number (MixedFrame _ _ _) = 1"

fun is_mixed_type :: "ndframe \<Rightarrow> bool" where
  "is_mixed_type (MixedFrame _ _ _) = True"
| "is_mixed_type _ = False"

definition get_axis :: "ndframe \<Rightarrow> nat \<Rightarrow> error + index" where
  "get_axis obj i = (if i < ndim obj then Inr (axes obj ! i) else Inl ValueError)"

fun wf_frame :: "ndframe \<Rightarrow> bool" where
  "wf_frame (Series ix vs) = (length vs = length (labels ix))"
| "wf_frame (DataFrame ix cols rows) =
     (length rows = length (labels ix) \<and> list_all (\<lambda>r. length r = length (labels cols)) rows)"
| "wf_frame (MixedFrame ix cols rows) =
     (length rows = length (labels ix) \<and> list_all (\<lambda>r. length r = length (labels cols)) rows)"

subsection \<open>Positions\<close>

text \<open>An integer position against an axis of length \<open>n\<close>, as the array library reads it: a
  negative position counts from the end, a position outside \<open>-n..n-1\<close> is an
  \<^verbatim>\<open>IndexError\<close>.\<close>

definition norm_pos :: "nat \<Rightarrow> int \<Rightarrow> error + nat" where
  "norm_pos n i =
     (if 0 \<le> i \<and> i < int n then Inr (nat i)
      else if - int n \<le> i \<and> i < 0 then Inr (nat (i + int n))
      else Inl IndexError_out_of_bounds)"

fun norm_all :: "nat \<Rightarrow> int list \<Rightarrow> error + nat list" where
  "norm_all n [] = Inr []"
| "norm_all n (i # is) =
     (case norm_pos n i of
        Inl e \<Rightarrow> Inl e
      | Inr p \<Rightarrow> (case norm_all n is of Inl e \<Rightarrow> Inl e | Inr ps \<Rightarrow> Inr (p # ps)))"

text \<open>Python's \<^verbatim>\<open>slice.indices\<close> and \<^verbatim>\<open>range\<close>: the positions a slice selects on an axis
  of length \<open>n\<close>, out-of-range bounds clamped.\<close>

definition clamp_bound :: "int \<Rightarrow> int \<Rightarrow> int \<Rightarrow> int \<Rightarrow> int" where
  "clamp_bound n lower upper b = (if b < 0 then max (b + n) lower else min b upper)"

definition py_range :: "int \<Rightarrow> int \<Rightarrow> int \<Rightarrow> int list" where
  "py_range start stop step =
     (if step > 0 then map (\<lambda>i. start + int i * step) [0..<nat ((stop - start + step - 1) div step)]
      else map (\<lambda>i. start + int i * step) [0..<nat ((start - stop - step - 1) div (- step))])"

definition slice_indices :: "int option \<Rightarrow> int option \<Rightarrow> int option \<Rightarrow> nat \<Rightarrow> error + nat list" where
  "slice_indices start stop step n =
     (let st = (case step of None \<Rightarrow> 1 | Some s \<Rightarrow> s); l = int n in
      if st = 0 then Inl ValueError
      else if st > 0 then
        Inr (map nat (py_range
               (case start of None \<Rightarrow> 0 | Some s \<Rightarrow> clamp_bound l 0 l s)
               (case stop of None \<Rightarrow> l | Some e \<Rightarrow> clamp_bound l 0 l e) st))
      else
        Inr (map nat (py_range
               (case start of None \<Rightarrow> l - 1 | Some s \<Rightarrow> clamp_bound l (- 1) (l - 1) s)
               (case stop of None \<Rightarrow> - 1 | Some e \<Rightarrow> clamp_bound l (- 1) (l - 1) e) st)))"

text \<open>A slice bound used as a position must be an integer.\<close>

fun int_bound :: "label option \<Rightarrow> error + int option" where
  "int_bound None = Inr None"
| "int_bound (Some (LInt i)) = Inr (Some i)"
| "int_bound (Some (LStr _)) = Inl TypeError"

definition slice_positions :: "label option \<Rightarrow> label option \<Rightarrow> int option \<Rightarrow> nat \<Rightarrow> error + nat list" where
  "slice_positions start stop step n =
     (case int_bound start of
        Inl e \<Rightarrow> Inl e
      | Inr s \<Rightarrow> (case int_bound stop of Inl e \<Rightarrow> Inl e | Inr e \<Rightarrow> slice_indices s e step n))"

text \<open>\<^verbatim>\<open>_check_slice_bounds\<close>. No function of the module calls it.\<close>

definition check_slice_bounds :: "label option \<Rightarrow> label option \<Rightarrow> nat \<Rightarrow> error + unit" where
  "check_slice_bounds start stop n =
     (let l = int n in
      case int_bound start of
        Inl e \<Rightarrow> Inl e
      | Inr s \<Rightarrow>
          if (case s of None \<Rightarrow> False | Some a \<Rightarrow> a < - l \<or> a > l - 1)
          then Inl IndexError_out_of_bounds
          else
            (case int_bound stop of
               Inl e \<Rightarrow> Inl e
             | Inr e \<Rightarrow>
                 if (case e of None \<Rightarrow> False | Some b \<Rightarrow> b < - l - 1 \<or> b > l)
                 then Inl IndexError_out_of_bounds
                 else Inr ()))"

subsection \<open>The storage collaborator\<close>

text \<open>Modelled from the spec: the host container and its storage manager are not under
  src/. The spec gives their interface (\<^verbatim>\<open>get_axis\<close>, \<^verbatim>\<open>take\<close>, \<^verbatim>\<open>reindex_axis\<close>,
  \<^verbatim>\<open>setitem\<close>, \<^verbatim>\<open>xs\<close>); the definitions of this subsection follow it.\<close>

text \<open>Modelled from the spec: the axis of a selection (\<^verbatim>\<open>Index.__getitem__\<close>, \<^verbatim>\<open>Index.take\<close>).
  A typed axis keeps its kind, an object axis infers it from the labels selected.\<close>

definition sub_index :: "index \<Rightarrow> label list \<Rightarrow> index" where
  "sub_index ax ls =
     \<lparr>labels = ls,
      inferred_type =
        (if inferred_type ax = KInteger \<or> inferred_type ax = KFloating
            \<or> inferred_type ax = KDatetime
         then inferred_type ax else infer_dtype ls)\<rparr>"

definition select :: "'a list \<Rightarrow> nat list \<Rightarrow> 'a list" where
  "select xs ps = map (\<lambda>p. xs ! p) ps"

text \<open>Modelled from the spec: the container restricted to positions (already in range) of
  one axis, the common part of \<^verbatim>\<open>take\<close> and of the host's \<^verbatim>\<open>_slice\<close>.\<close>

fun restrict :: "ndframe \<Rightarrow> nat list \<Rightarrow> nat \<Rightarrow> ndframe" where
  "restrict (Series ix vs) ps axis = Series (sub_index ix (select (labels ix) ps)) (select vs ps)"
| "restrict (DataFrame ix cols rows) ps axis =
     (if axis = 0 then DataFrame (sub_index ix (select (labels ix) ps)) cols (select rows ps)
      else DataFrame ix (sub_index cols (select (labels cols) ps))
             (map (\<lambda>r. select r ps) rows))"
| "restrict (MixedFrame ix cols rows) ps axis =
     (if axis = 0 then MixedFrame (sub_index ix (select (labels ix) ps)) cols (select rows ps)
      else MixedFrame ix (sub_index cols (select (labels cols) ps))
             (map (\<lambda>r. select r ps) rows))"

text \<open>Modelled from the spec: \<^verbatim>\<open>take(positions, axis)\<close>, with the positions read as the
  array library reads them.\<close>

definition take_axis :: "ndframe \<Rightarrow> int list \<Rightarrow> nat \<Rightarrow> error + ndframe" where
  "take_axis obj ps axis =
     (case get_axis obj axis of
        Inl e \<Rightarrow> Inl e
      | Inr ax \<Rightarrow>
          (case norm_all (length (labels ax)) ps of
             Inl e \<Rightarrow> Inl e
           | Inr qs \<Rightarrow> Inr (restrict obj qs axis)))"

text \<open>Modelled from the spec: \<^verbatim>\<open>_ixs(i, axis)\<close>, the cell of a series, the row or the column of a table, by
  position.\<close>

fun ixs :: "ndframe \<Rightarrow> int \<Rightarrow> nat \<Rightarrow> error + result" where
  "ixs (Series ix vs) i axis =
     (case norm_pos (length vs) i of Inl e \<Rightarrow> Inl e | Inr p \<Rightarrow> Inr (RScalar (vs ! p)))"
| "ixs (DataFrame ix cols rows) i axis =
     (if axis = 0 then
        (case norm_pos (length rows) i of
           Inl e \<Rightarrow> Inl e
         | Inr p \<Rightarrow> Inr (RObj (Series cols (rows ! p))))
      else
        (case norm_pos (length (labels cols)) i of
           Inl e \<Rightarrow> Inl e
         | Inr p \<Rightarrow> Inr (RObj (Series ix (map (\<lambda>r. r ! p) rows)))))"
| "ixs (MixedFrame ix cols rows) i axis =
     (if axis = 0 then
        (case norm_pos (length rows) i of
           Inl e \<Rightarrow> Inl e
         | Inr p \<Rightarrow> Inr (RObj (Series cols (rows ! p))))
      else
        (case norm_pos (length (labels cols)) i of
           Inl e \<Rightarrow> Inl e
         | Inr p \<Rightarrow> Inr (RObj (Series ix (map (\<lambda>r. r ! p) rows)))))"

text \<open>Modelled from the spec: \<^verbatim>\<open>xs(label, axis, copy)\<close>, the cross-section at a label, through the axis's own
  lookup.\<close>

definition host_xs :: "ndframe \<Rightarrow> label \<Rightarrow> nat \<Rightarrow> error + result" where
  "host_xs obj l axis =
     (case get_axis obj axis of
        Inl e \<Rightarrow> Inl e
      | Inr ax \<Rightarrow>
          (case get_loc ax l of
             Inl e \<Rightarrow> Inl e
           | Inr (IInt p) \<Rightarrow> ixs obj p axis
           | Inr (IMask bs) \<Rightarrow>
               (case take_axis obj (nonzero bs) axis of Inl e \<Rightarrow> Inl e | Inr r \<Rightarrow> Inr (RObj r))
           | Inr _ \<Rightarrow> Inl TypeError))"

text \<open>Modelled from the spec: the host's \<^verbatim>\<open>_slice(slobj, axis, raise_on_error)\<close> is not under
  src/. The spec's words for a position slice: the stop is exclusive and bounds out of
  range are tolerated by silent clamping to the axis bounds. The slice is therefore the
  half-open position slice of \<^verbatim>\<open>slice_positions\<close>; what the host does with the flag is not
  in src/ and not in the spec, and the flag is carried without effect.\<close>

definition host_slice :: "ndframe \<Rightarrow> indexer \<Rightarrow> nat \<Rightarrow> bool \<Rightarrow> error + ndframe" where
  "host_slice obj slobj axis raise_on_error =
     (case slobj of
        ISlice start stop step \<Rightarrow>
          (case get_axis obj axis of
             Inl e \<Rightarrow> Inl e
           | Inr ax \<Rightarrow>
               (case slice_positions start stop step (length (labels ax)) of
                  Inl e \<Rightarrow> Inl e
                | Inr ps \<Rightarrow> Inr (restrict obj ps axis)))
      | _ \<Rightarrow> Inl TypeError)"

text \<open>Modelled from the spec: \<^verbatim>\<open>reindex_axis(labels, axis)\<close>, the container conformed to a new axis. A new label
  takes the cells of the old label equal to it, or the missing fill when there is none;
  an axis with duplicate labels cannot be reindexed.\<close>

definition conform :: "label list \<Rightarrow> 'a list \<Rightarrow> 'a \<Rightarrow> label list \<Rightarrow> 'a list" where
  "conform old xs fill new =
     map (\<lambda>l. case positions_of old l of [] \<Rightarrow> fill | p # _ \<Rightarrow> xs ! p) new"

fun reindex_axis :: "ndframe \<Rightarrow> index \<Rightarrow> nat \<Rightarrow> error + ndframe" where
  "reindex_axis (Series ix vs) new axis =
     (if axis \<noteq> 0 then Inl ValueError
      else if \<not> distinct (labels ix) then Inl ValueError
      else Inr (Series new (conform (labels ix) vs NaN (labels new))))"
| "reindex_axis (DataFrame ix cols rows) new axis =
     (if axis = 0 then
        (if \<not> distinct (labels ix) then Inl ValueError
         else Inr (DataFrame new cols
                     (conform (labels ix) rows (replicate (length (labels cols)) NaN)
                        (labels new))))
      else if axis = 1 then
        (if \<not> distinct (labels cols) then Inl ValueError
         else Inr (DataFrame ix new
                     (map (\<lambda>r. conform (labels cols) r NaN (labels new)) rows)))
      else Inl ValueError)"
| "reindex_axis (MixedFrame ix cols rows) new axis =
     (if axis = 0 then
        (if \<not> distinct (labels ix) then Inl ValueError
         else Inr (MixedFrame new cols
                     (conform (labels ix) rows (replicate (length (labels cols)) NaN)
                        (labels new))))
      else if axis = 1 then
        (if \<not> distinct (labels cols) then Inl ValueError
         else Inr (MixedFrame ix new
                     (map (\<lambda>r. conform (labels cols) r NaN (labels new)) rows)))
      else Inl ValueError)"

text \<open>Modelled from the spec: the host's exact-cell accessor \<^verbatim>\<open>get_value(*key)\<close> is not
  under src/. The spec's scalar fast path takes one scalar key per axis and resolves each
  through the scalar path of the resolver to one cell; anything else is refused.\<close>

definition cell_position :: "index \<Rightarrow> key \<Rightarrow> error + nat" where
  "cell_position ax k =
     (case k of
        KScalar l \<Rightarrow>
          (case convert_to_indexer ax k False of
             Inl e \<Rightarrow> Inl e
           | Inr (IInt p) \<Rightarrow> norm_pos (length (labels ax)) p
           | Inr _ \<Rightarrow> Inl TypeError)
      | _ \<Rightarrow> Inl TypeError)"

fun get_value :: "ndframe \<Rightarrow> key list \<Rightarrow> error + result" where
  "get_value (Series ix vs) [k] =
     (case cell_position ix k of Inl e \<Rightarrow> Inl e | Inr p \<Rightarrow> Inr (RScalar (vs ! p)))"
| "get_value (DataFrame ix cols rows) [k0, k1] =
     (case cell_position ix k0 of
        Inl e \<Rightarrow> Inl e
      | Inr p \<Rightarrow>
          (case cell_position cols k1 of
             Inl e \<Rightarrow> Inl e
           | Inr q \<Rightarrow> Inr (RScalar (rows ! p ! q))))"
| "get_value (MixedFrame ix cols rows) [k0, k1] =
     (case cell_position ix k0 of
        Inl e \<Rightarrow> Inl e
      | Inr p \<Rightarrow>
          (case cell_position cols k1 of
             Inl e \<Rightarrow> Inl e
           | Inr q \<Rightarrow> Inr (RScalar (rows ! p ! q))))"
| "get_value _ _ = Inl TypeError"

section \<open>Reading through the legacy-mixed accessor\<close>

text \<open>\<^verbatim>\<open>_get_loc\<close> and \<^verbatim>\<open>_get_label\<close> of \<^verbatim>\<open>_NDFrameIndexer\<close>; the latter retries the
  cross-section as a copy.\<close>

definition get_loc_pos :: "ndframe \<Rightarrow> int \<Rightarrow> nat \<Rightarrow> error + result" where
  "get_loc_pos obj i axis = ixs obj i axis"

definition get_label :: "ndframe \<Rightarrow> label \<Rightarrow> nat \<Rightarrow> error + result" where
  "get_label obj l axis =
     (case host_xs obj l axis of Inr r \<Rightarrow> Inr r | Inl _ \<Rightarrow> host_xs obj l axis)"

text \<open>\<^verbatim>\<open>_NDFrameIndexer._get_slice_axis\<close>. Its classification of the slice is, line for
  line, that of \<^verbatim>\<open>_convert_to_indexer\<close>; the resolved slice goes to the host's
  \<^verbatim>\<open>_slice\<close> without the bounds check.\<close>

definition get_slice_axis :: "ndframe \<Rightarrow> label option \<Rightarrow> label option \<Rightarrow> int option \<Rightarrow> nat \<Rightarrow> error + result" where
  "get_slice_axis obj start stop step axis =
     (if \<not> need_slice start stop step then Inr (RObj obj)
      else
        (case get_axis obj axis of
           Inl e \<Rightarrow> Inl e
         | Inr ax \<Rightarrow>
             (case convert_slice ax start stop step of
                Inl e \<Rightarrow> Inl e
              | Inr indexer \<Rightarrow>
                  (case host_slice obj indexer axis False of
                     Inl e \<Rightarrow> Inl e
                   | Inr r \<Rightarrow> Inr (RObj r)))))"

text \<open>The rows a list of labels selects when the axis or the list has duplicates: every
  position of a label that is found, one row of missing fill for a label that is not.\<close>

definition matches :: "label list \<Rightarrow> label list \<Rightarrow> (label \<times> nat option) list" where
  "matches ls ks =
     concat (map (\<lambda>k. case positions_of ls k of
                          [] \<Rightarrow> [(k, None)]
                        | ps \<Rightarrow> map (\<lambda>p. (k, Some p)) ps) ks)"

definition pick :: "'a list \<Rightarrow> 'a \<Rightarrow> (label \<times> nat option) list \<Rightarrow> 'a list" where
  "pick xs fill ms = map (\<lambda>m. case snd m of None \<Rightarrow> fill | Some p \<Rightarrow> xs ! p) ms"

fun gather :: "ndframe \<Rightarrow> (label \<times> nat option) list \<Rightarrow> nat \<Rightarrow> ndframe" where
  "gather (Series ix vs) ms axis = Series (sub_index ix (map fst ms)) (pick vs NaN ms)"
| "gather (DataFrame ix cols rows) ms axis =
     (if axis = 0 then
        DataFrame (sub_index ix (map fst ms)) cols
          (pick rows (replicate (length (labels cols)) NaN) ms)
      else DataFrame ix (sub_index cols (map fst ms)) (map (\<lambda>r. pick r NaN ms) rows))"
| "gather (MixedFrame ix cols rows) ms axis =
     (if axis = 0 then
        MixedFrame (sub_index ix (map fst ms)) cols
          (pick rows (replicate (length (labels cols)) NaN) ms)
      else MixedFrame ix (sub_index cols (map fst ms)) (map (\<lambda>r. pick r NaN ms) rows))"

text \<open>\<^verbatim>\<open>_NDFrameIndexer._getitem_iterable\<close>. On a mixed-integer axis whose labels all
  resolve, the source computes a \<^verbatim>\<open>take\<close> and drops its result, so the keys go on to the
  label path.\<close>

definition adjust_negative :: "index \<Rightarrow> label list \<Rightarrow> label list" where
  "adjust_negative ax ks =
     (if inferred_type ax \<noteq> KInteger
      then map (\<lambda>k. if the_int k < 0 then LInt (int (length (labels ax)) + the_int k) else k) ks
      else ks)"

definition iterable_labels :: "ndframe \<Rightarrow> index \<Rightarrow> label list \<Rightarrow> nat \<Rightarrow> error + result" where
  "iterable_labels obj ax ks axis =
     (if distinct (labels ax) \<and> distinct ks then
        (case reindex_axis obj (sub_index ax ks) axis of
           Inl e \<Rightarrow> Inl e
         | Inr r \<Rightarrow> Inr (RObj r))
      else Inr (RObj (gather obj (matches (labels ax) ks) axis)))"

definition taken :: "ndframe \<Rightarrow> int list \<Rightarrow> nat \<Rightarrow> error + result" where
  "taken obj ps axis = (case take_axis obj ps axis of Inl e \<Rightarrow> Inl e | Inr r \<Rightarrow> Inr (RObj r))"

definition getitem_iterable :: "ndframe \<Rightarrow> key \<Rightarrow> nat \<Rightarrow> error + result" where
  "getitem_iterable obj key axis =
     (case get_axis obj axis of
        Inl e \<Rightarrow> Inl e
      | Inr ax \<Rightarrow>
          (case key of
             KMask bs \<Rightarrow> taken obj (nonzero bs) axis
           | KList ks \<Rightarrow>
               (if is_integer_dtype ks then
                  (let keyarr = adjust_negative ax ks in
                   if inferred_type ax = KMixedInteger then
                     (if list_all (\<lambda>i. i \<ge> 0) (get_indexer ax keyarr)
                      then iterable_labels obj ax keyarr axis
                      else taken obj (map the_int keyarr) axis)
                   else if inferred_type ax \<noteq> KInteger then taken obj (map the_int keyarr) axis
                   else iterable_labels obj ax keyarr axis)
                else iterable_labels obj ax ks axis)
           | _ \<Rightarrow> Inl TypeError))"

text \<open>\<^verbatim>\<open>_NDFrameIndexer._getitem_axis\<close>.\<close>

definition getitem_axis :: "ndframe \<Rightarrow> key \<Rightarrow> nat \<Rightarrow> error + result" where
  "getitem_axis obj key axis =
     (case get_axis obj axis of
        Inl e \<Rightarrow> Inl e
      | Inr ax \<Rightarrow>
          (case key of
             KSlice start stop step \<Rightarrow> get_slice_axis obj start stop step axis
           | KList _ \<Rightarrow> getitem_iterable obj key axis
           | KMask _ \<Rightarrow> getitem_iterable obj key axis
           | KScalar k \<Rightarrow>
               if is_integer k \<and> \<not> is_integer_index ax then get_loc_pos obj (the_int k) axis
               else get_label obj k axis))"

text \<open>\<^verbatim>\<open>_is_label_like\<close> and \<^verbatim>\<open>_is_list_like\<close> on keys, and the null slice as a key.\<close>

fun is_label_like :: "key \<Rightarrow> bool" where
  "is_label_like (KScalar _) = True"
| "is_label_like _ = False"

fun is_list_like_key :: "key \<Rightarrow> bool" where
  "is_list_like_key (KList _) = True"
| "is_list_like_key (KMask _) = True"
| "is_list_like_key _ = False"

fun is_null_slice_key :: "key \<Rightarrow> bool" where
  "is_null_slice_key (KSlice None None None) = True"
| "is_null_slice_key _ = False"

text \<open>\<^verbatim>\<open>_convert_for_reindex\<close> and \<^verbatim>\<open>_multi_take\<close>, whose every failure is re-raised as
  the accessor's \<^verbatim>\<open>KeyError\<close>.\<close>

definition convert_for_reindex :: "index \<Rightarrow> key \<Rightarrow> error + label list" where
  "convert_for_reindex ax key =
     (case key of
        KMask bs \<Rightarrow>
          (case norm_all (length (labels ax)) (nonzero bs) of
             Inl e \<Rightarrow> Inl e
           | Inr ps \<Rightarrow> Inr (select (labels ax) ps))
      | KList ks \<Rightarrow>
          (if is_integer_dtype ks \<and> \<not> is_integer_index ax then
             (case norm_all (length (labels ax)) (map the_int ks) of
                Inl e \<Rightarrow> Inl e
              | Inr ps \<Rightarrow> Inr (select (labels ax) ps))
           else Inr ks)
      | _ \<Rightarrow> Inl TypeError)"

fun multi_take_from :: "ndframe \<Rightarrow> key list \<Rightarrow> nat \<Rightarrow> error + ndframe" where
  "multi_take_from obj [] i = Inr obj"
| "multi_take_from obj (k # ks) i =
     (case get_axis obj i of
        Inl e \<Rightarrow> Inr obj
      | Inr ax \<Rightarrow>
          (case convert_for_reindex ax k of
             Inl e \<Rightarrow> Inl KeyError
           | Inr ls \<Rightarrow>
               (case reindex_axis obj (sub_index ax ls) i of
                  Inl e \<Rightarrow> Inl KeyError
                | Inr obj' \<Rightarrow> multi_take_from obj' ks (Suc i))))"

text \<open>The loop that ends \<^verbatim>\<open>_getitem_tuple\<close>: one axis after the other, on the running
  result.\<close>

fun tuple_loop :: "nat \<Rightarrow> result \<Rightarrow> key list \<Rightarrow> nat \<Rightarrow> error + result" where
  "tuple_loop nd retval [] i = Inr retval"
| "tuple_loop nd retval (k # ks) i =
     (if i \<ge> nd then Inl IndexingError
      else if is_null_slice_key k then tuple_loop nd retval ks (Suc i)
      else
        (case retval of
           RObj obj \<Rightarrow>
             (case getitem_axis obj k i of
                Inl e \<Rightarrow> Inl e
              | Inr r \<Rightarrow> tuple_loop nd r ks (Suc i))
         | _ \<Rightarrow> Inl AttributeError))"

text \<open>The first entry of a tuple that \<^verbatim>\<open>_getitem_lowerdim\<close> lowers.\<close>

fun first_label_like :: "key list \<Rightarrow> nat option" where
  "first_label_like [] = None"
| "first_label_like (k # ks) =
     (if is_label_like k then Some 0 else map_option Suc (first_label_like ks))"

definition label_likes :: "key list \<Rightarrow> nat" where
  "label_likes tup = length (filter is_label_like tup)"

text \<open>\<^verbatim>\<open>_getitem_tuple\<close> with \<^verbatim>\<open>_getitem_lowerdim\<close> inlined: the first scalar entry is
  resolved on its axis; a scalar section is the result; otherwise the remaining entries are
  applied to the section through the accessor again (the exact-cell attempt of
  \<^verbatim>\<open>__getitem__\<close> first). An \<^verbatim>\<open>IndexingError\<close> of the lowering falls back to the
  multi-take or to the axis-by-axis loop. Lowering removes a scalar entry, so the recursion
  ends.\<close>

function getitem_tuple :: "ndframe \<Rightarrow> key list \<Rightarrow> error + result" where
  "getitem_tuple obj tup =
     (case (if length tup > ndim obj then Inl IndexingError
            else
              (case first_label_like tup of
                 None \<Rightarrow> Inl IndexingError
               | Some i \<Rightarrow>
                   (case getitem_axis obj (tup ! i) i of
                      Inl e \<Rightarrow> Inl e
                    | Inr (RObj section) \<Rightarrow>
                        (if ndim section = ndim obj then
                           (case get_value section
                                   (take i tup @ [KSlice None None None] @ drop (Suc i) tup) of
                              Inr r \<Rightarrow> Inr r
                            | Inl _ \<Rightarrow>
                                getitem_tuple section
                                  (take i tup @ [KSlice None None None] @ drop (Suc i) tup))
                         else
                           (case take i tup @ drop (Suc i) tup of
                              [k] \<Rightarrow> getitem_axis section k 0
                            | new_key \<Rightarrow>
                                (case get_value section new_key of
                                   Inr r \<Rightarrow> Inr r
                                 | Inl _ \<Rightarrow> getitem_tuple section new_key)))
                    | Inr r \<Rightarrow> Inr r))) of
        Inl IndexingError \<Rightarrow>
          (if list_all is_list_like_key tup then
             (case multi_take_from obj tup 0 of Inl e \<Rightarrow> Inl e | Inr r \<Rightarrow> Inr (RObj r))
           else tuple_loop (ndim obj) (RObj obj) tup 0)
      | r \<Rightarrow> r)"
  by pat_completeness auto



text \<open>\<^verbatim>\<open>_NDFrameIndexer.__getitem__\<close>.\<close>

definition getitem :: "ndframe \<Rightarrow> key arg \<Rightarrow> error + result" where
  "getitem obj key =
     (case key of
        Tuple tup \<Rightarrow>
          (case get_value obj tup of Inr r \<Rightarrow> Inr r | Inl _ \<Rightarrow> getitem_tuple obj tup)
      | Single k \<Rightarrow> getitem_axis obj k 0)"

section \<open>Reading through the position-only accessor\<close>

text \<open>\<^verbatim>\<open>_iLocIndexer._get_slice_axis\<close>, \<^verbatim>\<open>_LocationIndexer._getbool_axis\<close> and
  \<^verbatim>\<open>_iLocIndexer._getitem_axis\<close>. The slice goes to the host's \<^verbatim>\<open>_slice\<close> with
  \<^verbatim>\<open>raise_on_error=True\<close>.\<close>

definition iloc_get_slice_axis :: "ndframe \<Rightarrow> label option \<Rightarrow> label option \<Rightarrow> int option \<Rightarrow> nat \<Rightarrow> error + result" where
  "iloc_get_slice_axis obj start stop step axis =
     (if \<not> need_slice start stop step then Inr (RObj obj)
      else
        (case host_slice obj (ISlice start stop step) axis True of
           Inl e \<Rightarrow> Inl e
         | Inr r \<Rightarrow> Inr (RObj r)))"

definition getbool_axis :: "ndframe \<Rightarrow> bool list \<Rightarrow> nat \<Rightarrow> error + result" where
  "getbool_axis obj bs axis =
     (case take_axis obj (nonzero bs) axis of
        Inl e \<Rightarrow> Inl IndexError_out_of_bounds
      | Inr r \<Rightarrow> Inr (RObj r))"

definition iloc_getitem_axis :: "ndframe \<Rightarrow> key \<Rightarrow> nat \<Rightarrow> error + result" where
  "iloc_getitem_axis obj key axis =
     (case key of
        KSlice start stop step \<Rightarrow> iloc_get_slice_axis obj start stop step axis
      | KMask bs \<Rightarrow> getbool_axis obj bs axis
      | KScalar (LInt i) \<Rightarrow> get_loc_pos obj i axis
      | KScalar (LStr _) \<Rightarrow> Inl ValueError
      | KList ks \<Rightarrow>
          if list_all is_integer ks then taken obj (map the_int ks) axis else Inl TypeError)"

section \<open>Assignment\<close>

subsection \<open>The array assignment of the storage\<close>

text \<open>Modelled from the spec: \<^verbatim>\<open>setitem(selector, value)\<close> of the storage manager is not
  under src/; it is the array library's indexed assignment \<^verbatim>\<open>values[indexer] = value\<close>.
  The indexer it receives is a single indexer, a tuple of indexers, or the open mesh
  \<^verbatim>\<open>np.ix_(*args)\<close>.\<close>

datatype nindexer = NSingle indexer | NTuple "indexer list" | NIx "indexer list"

fun is_array_indexer :: "indexer \<Rightarrow> bool" where
  "is_array_indexer (IList _) = True"
| "is_array_indexer (IMask _) = True"
| "is_array_indexer (IListRaw _) = True"
| "is_array_indexer _ = False"

text \<open>The positions one indexer selects on an axis of length \<open>n\<close>, and whether it is a
  scalar (which removes the axis from the shape of the selection).\<close>

fun axis_positions :: "nat \<Rightarrow> indexer \<Rightarrow> error + (nat list \<times> bool)" where
  "axis_positions n (IInt i) =
     (case norm_pos n i of Inl e \<Rightarrow> Inl e | Inr p \<Rightarrow> Inr ([p], True))"
| "axis_positions n (ISlice a b c) =
     (case slice_positions a b c n of Inl e \<Rightarrow> Inl e | Inr ps \<Rightarrow> Inr (ps, False))"
| "axis_positions n (IList ps) =
     (case norm_all n ps of Inl e \<Rightarrow> Inl e | Inr qs \<Rightarrow> Inr (qs, False))"
| "axis_positions n (IMask bs) =
     (if length bs = n then Inr (map nat (nonzero bs), False)
      else Inl IndexError_out_of_bounds)"
| "axis_positions n (IListRaw _) = Inl IndexError_out_of_bounds"
| "axis_positions n (IMissing _) = Inl TypeError"

fun positions_all :: "nat list \<Rightarrow> indexer list \<Rightarrow> error + (nat list \<times> bool) list" where
  "positions_all (n # ns) (i # is) =
     (case axis_positions n i of
        Inl e \<Rightarrow> Inl e
      | Inr pd \<Rightarrow>
          (case positions_all ns is of Inl e \<Rightarrow> Inl e | Inr pds \<Rightarrow> Inr (pd # pds)))"
| "positions_all _ _ = Inr []"

text \<open>Two index arrays in one tuple are read pairwise (broadcast against each other); this
  is what \<^verbatim>\<open>_maybe_convert_ix\<close> avoids.\<close>

definition pairwise_cells :: "nat list \<Rightarrow> nat list \<Rightarrow> error + (nat list list \<times> nat list)" where
  "pairwise_cells rs cs =
     (if length rs = length cs then Inr (map (\<lambda>(r, c). [r, c]) (zip rs cs), [length rs])
      else if length rs = 1 then Inr (map (\<lambda>c. [hd rs, c]) cs, [length cs])
      else if length cs = 1 then Inr (map (\<lambda>r. [r, hd cs]) rs, [length rs])
      else Inl IndexError_out_of_bounds)"

text \<open>The cells an indexer selects, in row-major order, and the shape of the selection.
  An indexer shorter than the number of axes selects the trailing axes whole.\<close>

definition selection :: "nat list \<Rightarrow> nindexer \<Rightarrow> error + (nat list list \<times> nat list)" where
  "selection lens nidx =
     (let idxs = (case nidx of NSingle i \<Rightarrow> [i] | NTuple t \<Rightarrow> t | NIx t \<Rightarrow> t) in
      if length idxs > length lens then Inl IndexError_out_of_bounds
      else
        (case positions_all lens
                (idxs @ replicate (length lens - length idxs) (ISlice None None None)) of
           Inl e \<Rightarrow> Inl e
         | Inr pds \<Rightarrow>
             (case (nidx, pds) of
                (NTuple [i0, i1], [(rs, _), (cs, _)]) \<Rightarrow>
                  if is_array_indexer i0 \<and> is_array_indexer i1 then pairwise_cells rs cs
                  else Inr (product_lists (map fst pds),
                            map (\<lambda>pd. length (fst pd)) (filter (\<lambda>pd. \<not> snd pd) pds))
              | _ \<Rightarrow> Inr (product_lists (map fst pds),
                          map (\<lambda>pd. length (fst pd)) (filter (\<lambda>pd. \<not> snd pd) pds)))))"

text \<open>The assigned cells, broadcast to the shape of the selection: a scalar or a sequence
  of one element fills it, a sequence as long as the last axis of the selection is repeated
  along the others, any other length is a \<^verbatim>\<open>ValueError\<close>. A list of lists is a block of
  two dimensions: it must have the shape of the selection (the spec's value of kind 4,
  "shape mismatch is a hard error").\<close>

definition spread :: "nat list \<Rightarrow> cell list \<Rightarrow> error + cell list" where
  "spread shape vs =
     (if length vs = 1 then Inr (replicate (prod_list shape) (hd vs))
      else if shape \<noteq> [] \<and> length vs = last shape
      then Inr (concat (replicate (prod_list (butlast shape)) vs))
      else Inl ValueError)"

fun broadcast :: "nat list \<Rightarrow> rhs \<Rightarrow> error + cell list" where
  "broadcast shape (VScalar c) = Inr (replicate (prod_list shape) c)"
| "broadcast shape (VList vs) = spread shape vs"
| "broadcast shape (VSeries _ vs) = spread shape vs"
| "broadcast shape (VLists vss) =
     (if vss \<noteq> [] \<and> list_all (\<lambda>vs. length vs = length (hd vss)) vss
         \<and> shape = [length vss, length (hd vss)]
      then Inr (concat vss) else Inl ValueError)"

fun put :: "ndframe \<Rightarrow> nat list \<Rightarrow> cell \<Rightarrow> ndframe" where
  "put (Series ix vs) [p] x = Series ix (vs[p := x])"
| "put (DataFrame ix cols rows) [r, c] x = DataFrame ix cols (rows[r := (rows ! r)[c := x]])"
| "put (MixedFrame ix cols rows) [r, c] x = MixedFrame ix cols (rows[r := (rows ! r)[c := x]])"
| "put obj _ _ = obj"

definition storage_setitem :: "ndframe \<Rightarrow> nindexer \<Rightarrow> rhs \<Rightarrow> error + ndframe" where
  "storage_setitem obj nidx v =
     (case selection (map (\<lambda>ax. length (labels ax)) (axes obj)) nidx of
        Inl e \<Rightarrow> Inl e
      | Inr (cells, shape) \<Rightarrow>
          (case broadcast shape v of
             Inl e \<Rightarrow> Inl e
           | Inr vs \<Rightarrow> Inr (fold (\<lambda>(c, x) ob. put ob c x) (zip cells vs) obj)))"

text \<open>Modelled from the spec: the host's \<^verbatim>\<open>obj[key] = np.nan\<close> on a table. The column \<open>key\<close> is filled with the
  missing fill, and is appended to the column axis when it is new.\<close>

fun set_column_nan :: "ndframe \<Rightarrow> label \<Rightarrow> error + ndframe" where
  "set_column_nan (DataFrame ix cols rows) key =
     (if key \<in> set (labels cols)
      then Inr (DataFrame ix cols
                  (map (\<lambda>r. map (\<lambda>(l, x). if l = key then NaN else x) (zip (labels cols) r))
                     rows))
      else Inr (DataFrame ix (Index (labels cols @ [key])) (map (\<lambda>r. r @ [NaN]) rows)))"
| "set_column_nan (MixedFrame ix cols rows) key =
     (if key \<in> set (labels cols)
      then Inr (MixedFrame ix cols
                  (map (\<lambda>r. map (\<lambda>(l, x). if l = key then NaN else x) (zip (labels cols) r))
                     rows))
      else Inr (MixedFrame ix (Index (labels cols @ [key])) (map (\<lambda>r. r @ [NaN]) rows)))"
| "set_column_nan (Series ix vs) key = Inl TypeError"

subsection \<open>\<^verbatim>\<open>_maybe_convert_ix\<close>\<close>

text \<open>When every argument is an array or a list, the arguments become the open mesh
  \<^verbatim>\<open>np.ix_(*args)\<close>, in which a boolean array stands for its true positions; otherwise
  they are returned as they are.\<close>

fun ix_arg :: "indexer \<Rightarrow> indexer" where
  "ix_arg (IMask bs) = IList (nonzero bs)"
| "ix_arg i = i"

definition maybe_convert_ix :: "indexer list \<Rightarrow> nindexer" where
  "maybe_convert_ix args =
     (if list_all is_array_indexer args then NIx (map ix_arg args) else NTuple args)"

subsection \<open>\<^verbatim>\<open>_NDFrameIndexer._align_series\<close>\<close>

text \<open>\<^verbatim>\<open>ax[idx]\<close>: the labels an indexer selects on an axis.\<close>

definition index_getitem :: "index \<Rightarrow> indexer \<Rightarrow> error + label list" where
  "index_getitem ax idx =
     (case axis_positions (length (labels ax)) idx of
        Inl e \<Rightarrow> Inl e
      | Inr (ps, _) \<Rightarrow> Inr (select (labels ax) ps))"

text \<open>Modelled from the spec: \<^verbatim>\<open>Series.reindex\<close> is not under src/. The spec's ValueAligner
  reindexes the value onto the target labels, with the missing fill for a target label
  absent from the value; a value whose own labels repeat cannot be reindexed.\<close>

definition series_reindex :: "index \<Rightarrow> cell list \<Rightarrow> label list \<Rightarrow> error + cell list" where
  "series_reindex six svals target =
     (if \<not> distinct (labels six) then Inl ValueError
      else Inr (conform (labels six) svals NaN target))"

text \<open>The two lines that every branch of \<^verbatim>\<open>_align_series\<close> ends with:
  \<^verbatim>\<open>if ser.index.equals(new_ix): return ser.values.copy()\<close> and
  \<^verbatim>\<open>return ser.reindex(new_ix).values\<close>.\<close>

definition align_to :: "index \<Rightarrow> cell list \<Rightarrow> label list \<Rightarrow> error + cell list" where
  "align_to six svals target =
     (if labels six = target then Inr svals else series_reindex six svals target)"

fun is_sequence_or_slice :: "indexer \<Rightarrow> bool" where
  "is_sequence_or_slice (IInt _) = False"
| "is_sequence_or_slice _ = True"

definition single_aligner :: "ndframe \<Rightarrow> indexer list \<Rightarrow> bool" where
  "single_aligner obj idxs =
     (let aligners = map (\<lambda>idx. \<not> is_null_slice idx) idxs;
          single = (length (filter (\<lambda>a. a) aligners) = 1)
      in if ndim obj = 2 then single \<and> hd aligners else single)"

fun align_walk :: "ndframe \<Rightarrow> bool \<Rightarrow> index \<Rightarrow> cell list \<Rightarrow> nat \<Rightarrow> indexer list \<Rightarrow> error + cell list" where
  "align_walk obj sa six svals i [] = Inl ValueError"
| "align_walk obj sa six svals i (idx # rest) =
     (if i \<ge> ndim obj then Inl IndexError_out_of_bounds
      else if is_sequence_or_slice idx then
        (if sa \<and> is_null_slice idx then align_walk obj sa six svals (Suc i) rest
         else
           (case index_getitem (axes obj ! i) idx of
              Inl e \<Rightarrow> Inl e
            | Inr target \<Rightarrow> align_to six svals target))
      else if sa \<and> ndim obj = 2 then align_to six svals (labels (axes obj ! 1))
      else if sa then Inl Unmodelled
      else align_walk obj sa six svals (Suc i) rest)"

text \<open>The open-mesh arrays of \<^verbatim>\<open>np.ix_\<close> index an axis in two dimensions; what the label
  set returns there is decided outside src/ and the spec, and is left unmodelled.\<close>

definition align_series :: "ndframe \<Rightarrow> nindexer \<Rightarrow> index \<Rightarrow> cell list \<Rightarrow> error + cell list" where
  "align_series obj nidx six svals =
     (case nidx of
        NTuple idxs \<Rightarrow> align_walk obj (single_aligner obj idxs) six svals 0 idxs
      | NIx _ \<Rightarrow> Inl Unmodelled
      | NSingle (IInt _) \<Rightarrow>
          (case get_axis obj 1 of
             Inl e \<Rightarrow> Inl e
           | Inr ax \<Rightarrow> align_to six svals (labels ax))
      | NSingle _ \<Rightarrow> Inl ValueError)"

subsection \<open>The positional validity gate\<close>

text \<open>\<^verbatim>\<open>_tuplify\<close> and \<^verbatim>\<open>_has_valid_positional_setitem_indexer\<close>. Inside the loop the
  test \<^verbatim>\<open>is_list_like(i)\<close> comes before the test for a dict, and a dict is iterable: a
  missing-key dict inside a tuple passes, only one that is the whole indexer is refused.\<close>

definition tuplify :: "ndframe \<Rightarrow> indexer \<Rightarrow> indexer list" where
  "tuplify obj loc = (replicate (ndim obj) (ISlice None None None))[0 := loc]"

fun check_positional :: "index \<Rightarrow> indexer \<Rightarrow> error + unit" where
  "check_positional ax (ISlice _ _ _) = Inr ()"
| "check_positional ax (IInt i) =
     (if i \<ge> int (length (labels ax)) then Inl IndexError_cannot_enlarge else Inr ())"
| "check_positional ax _ = Inr ()"

fun check_positional_all :: "index list \<Rightarrow> indexer list \<Rightarrow> error + unit" where
  "check_positional_all (ax # axs) (i # is) =
     (case check_positional ax i of Inl e \<Rightarrow> Inl e | Inr _ \<Rightarrow> check_positional_all axs is)"
| "check_positional_all _ _ = Inr ()"

definition has_valid_positional_setitem_indexer :: "ndframe \<Rightarrow> indexer arg \<Rightarrow> error + bool" where
  "has_valid_positional_setitem_indexer obj indexer =
     (case indexer of
        Single (IMissing _) \<Rightarrow> Inl IndexError_cannot_enlarge
      | Single i \<Rightarrow>
          (case check_positional_all (axes obj) (tuplify obj i) of
             Inl e \<Rightarrow> Inl e | Inr _ \<Rightarrow> Inr True)
      | Tuple t \<Rightarrow>
          (case check_positional_all (axes obj) t of Inl e \<Rightarrow> Inl e | Inr _ \<Rightarrow> Inr True))"

text \<open>\<^verbatim>\<open>_has_valid_setitem_indexer\<close> of each accessor.\<close>

definition has_valid_setitem_indexer :: "policy \<Rightarrow> ndframe \<Rightarrow> indexer arg \<Rightarrow> error + bool" where
  "has_valid_setitem_indexer pol obj indexer =
     (case pol of
        ILoc \<Rightarrow> has_valid_positional_setitem_indexer obj indexer
      | _ \<Rightarrow> Inr True)"

subsection \<open>\<^verbatim>\<open>_setitem_with_indexer\<close> and \<^verbatim>\<open>__setitem__\<close>\<close>

text \<open>\<^verbatim>\<open>_convert_tuple\<close>: every entry resolved on its own axis.\<close>

fun convert_tuple_from :: "policy \<Rightarrow> ndframe \<Rightarrow> nat \<Rightarrow> key list \<Rightarrow> bool \<Rightarrow> error + indexer list" where
  "convert_tuple_from pol obj i [] is_setter = Inr []"
| "convert_tuple_from pol obj i (k # ks) is_setter =
     (case get_axis obj i of
        Inl e \<Rightarrow> Inl e
      | Inr ax \<Rightarrow>
          (case convert_to_indexer_of pol ax k is_setter of
             Inl e \<Rightarrow> Inl e
           | Inr idx \<Rightarrow>
               (case convert_tuple_from pol obj (Suc i) ks is_setter of
                  Inl e \<Rightarrow> Inl e
                | Inr idxs \<Rightarrow> Inr (idx # idxs))))"

text \<open>The resolution step of \<^verbatim>\<open>__setitem__\<close>.\<close>

definition resolve_setter :: "policy \<Rightarrow> ndframe \<Rightarrow> key arg \<Rightarrow> error + indexer arg" where
  "resolve_setter pol obj key =
     (case key of
        Tuple ks \<Rightarrow>
          if length ks > ndim obj then Inl IndexingError
          else
            (case convert_tuple_from pol obj 0 ks True of
               Inl e \<Rightarrow> Inl e
             | Inr idxs \<Rightarrow> Inr (Tuple idxs))
      | Single k \<Rightarrow>
          (case get_axis obj 0 of
             Inl e \<Rightarrow> Inl e
           | Inr ax \<Rightarrow>
               (case convert_to_indexer_of pol ax k True of
                  Inl e \<Rightarrow> Inl e
                | Inr idx \<Rightarrow> Inr (Single idx))))"

text \<open>\<^verbatim>\<open>_convert_from_missing_indexer_tuple\<close>: the resolved entries handed back to the
  label accessor as keys, a missing-key dict as its key.\<close>

fun indexer_as_key :: "indexer \<Rightarrow> key" where
  "indexer_as_key (IMissing k) = KScalar k"
| "indexer_as_key (IInt i) = KScalar (LInt i)"
| "indexer_as_key (ISlice a b c) = KSlice a b c"
| "indexer_as_key (IList ps) = KList (map LInt ps)"
| "indexer_as_key (IMask bs) = KMask bs"
| "indexer_as_key (IListRaw ks) = KList ks"

text \<open>The loop over a tuple indexer (the part "maybe partial set"). It runs on the target
  as enlarged so far and ends in one of three ways: an exception, the branch of a missing
  key on the items axis (handled by the caller), or the tuple of positions.\<close>

datatype walk = Raised ndframe error | Items ndframe label | Walked ndframe "indexer list"

fun enlarge_walk :: "ndframe \<Rightarrow> nat \<Rightarrow> indexer list \<Rightarrow> indexer list \<Rightarrow> walk" where
  "enlarge_walk obj i [] nindexer = Walked obj nindexer"
| "enlarge_walk obj i (IMissing key # rest) nindexer =
     (if ndim obj > 1 \<and> i = info_axis_number obj then Items obj key
      else
        (case get_axis obj i of
           Inl e \<Rightarrow> Raised obj e
         | Inr ax \<Rightarrow>
             (case reindex_axis obj (safe_append_to_index ax key) i of
                Inl e \<Rightarrow> Raised obj e
              | Inr obj' \<Rightarrow>
                  (case get_loc (safe_append_to_index ax key) key of
                     Inl e \<Rightarrow> Raised obj' e
                   | Inr loc \<Rightarrow> enlarge_walk obj' (Suc i) rest (nindexer @ [loc])))))"
| "enlarge_walk obj i (idx # rest) nindexer = enlarge_walk obj (Suc i) rest (nindexer @ [idx])"

text \<open>The part "align and set the values", off the split path.\<close>

definition set_values :: "ndframe \<Rightarrow> nindexer \<Rightarrow> rhs \<Rightarrow> ndframe \<times> error option" where
  "set_values obj nidx v =
     (case (case v of
              VSeries six svals \<Rightarrow>
                (case align_series obj nidx six svals of
                   Inl e \<Rightarrow> Inl e
                 | Inr vs \<Rightarrow> Inr (VList vs))
            | _ \<Rightarrow> Inr v) of
        Inl e \<Rightarrow> (obj, Some e)
      | Inr v' \<Rightarrow>
          (case storage_setitem obj nidx v' of
             Inl e \<Rightarrow> (obj, Some e)
           | Inr obj' \<Rightarrow> (obj', None)))"

subsection \<open>The split path\<close>

text \<open>\<^verbatim>\<open>_length_of_indexer\<close>, with the division of integers rounding down.\<close>

definition length_of_indexer :: "indexer \<Rightarrow> nat \<Rightarrow> error + int" where
  "length_of_indexer indexer n =
     (case indexer of
        ISlice a b c \<Rightarrow>
          (case int_bound a of
             Inl e \<Rightarrow> Inl e
           | Inr start \<Rightarrow>
               (case int_bound b of
                  Inl e \<Rightarrow> Inl e
                | Inr stop \<Rightarrow>
                    (let l = int n;
                         s = (case start of None \<Rightarrow> 0 | Some x \<Rightarrow> if x < 0 then x + l else x);
                         e = (case stop of
                                None \<Rightarrow> l
                              | Some y \<Rightarrow> if y > l then l else if y < 0 then y + l else y);
                         st = (case c of None \<Rightarrow> 1 | Some z \<Rightarrow> if z < 0 then - z else z)
                     in if st = 0 then Inl ZeroDivisionError else Inr ((e - s) div st))))
      | IList ps \<Rightarrow> Inr (int (length ps))
      | IListRaw ks \<Rightarrow> Inr (int (length ks))
      | IMask bs \<Rightarrow> Inr (int (length bs))
      | IInt _ \<Rightarrow> Inr 1
      | IMissing _ \<Rightarrow> Inl AssertionError)"

text \<open>Modelled from the spec: the host's \<^verbatim>\<open>obj[item]\<close> and \<^verbatim>\<open>obj[item] = s\<close> on a table
  are not under src/. The first is the column of the label \<open>item\<close> as a series over the row
  axis, the second replaces the cells of that column. A label that stands more than once
  on the column axis selects a table, which is not modelled.\<close>

definition column_position :: "index \<Rightarrow> label \<Rightarrow> error + nat" where
  "column_position cols item =
     (case positions_of (labels cols) item of
        [] \<Rightarrow> Inl KeyError
      | [q] \<Rightarrow> Inr q
      | _ \<Rightarrow> Inl Unmodelled)"

definition get_column :: "cell list list \<Rightarrow> nat \<Rightarrow> cell list" where
  "get_column rows q = map (\<lambda>r. r ! q) rows"

definition set_column :: "cell list list \<Rightarrow> nat \<Rightarrow> cell list \<Rightarrow> cell list list" where
  "set_column rows q vs = map (\<lambda>(r, x). r[q := x]) (zip rows vs)"

text \<open>The local function \<^verbatim>\<open>setter(item, v)\<close>: the column is taken out, assigned through
  its own storage at the plane indexer, and put back.\<close>

definition assign_column :: "index \<Rightarrow> cell list \<Rightarrow> indexer list \<Rightarrow> int \<Rightarrow> rhs \<Rightarrow> error + cell list" where
  "assign_column ix col plane_indexer lplane_indexer v =
     (case storage_setitem (Series ix col)
             (if lplane_indexer = 1 then NSingle (hd plane_indexer) else NTuple plane_indexer)
             v of
        Inl e \<Rightarrow> Inl e
      | Inr (Series _ vs) \<Rightarrow> Inr vs
      | Inr _ \<Rightarrow> Inl Unmodelled)"

fun setter :: "ndframe \<Rightarrow> indexer list \<Rightarrow> int \<Rightarrow> label \<Rightarrow> rhs \<Rightarrow> error + ndframe" where
  "setter (MixedFrame ix cols rows) plane_indexer lplane_indexer item v =
     (case column_position cols item of
        Inl e \<Rightarrow> Inl e
      | Inr q \<Rightarrow>
          (case assign_column ix (get_column rows q) plane_indexer lplane_indexer v of
             Inl e \<Rightarrow> Inl e
           | Inr vs \<Rightarrow> Inr (MixedFrame ix cols (set_column rows q vs))))"
| "setter (DataFrame ix cols rows) plane_indexer lplane_indexer item v =
     (case column_position cols item of
        Inl e \<Rightarrow> Inl e
      | Inr q \<Rightarrow>
          (case assign_column ix (get_column rows q) plane_indexer lplane_indexer v of
             Inl e \<Rightarrow> Inl e
           | Inr vs \<Rightarrow> Inr (DataFrame ix cols (set_column rows q vs))))"
| "setter (Series ix vs) plane_indexer lplane_indexer item v = Inl Unmodelled"

text \<open>The loops \<^verbatim>\<open>for item, v in zip(labels, value): setter(item, v)\<close> and
  \<^verbatim>\<open>for item in labels: setter(item, value)\<close>: the columns are written one after the
  other, and a column that raises leaves the columns before it written.\<close>

fun set_each :: "ndframe \<Rightarrow> indexer list \<Rightarrow> int \<Rightarrow> (label \<times> rhs) list \<Rightarrow> ndframe \<times> error option" where
  "set_each obj plane_indexer lplane_indexer [] = (obj, None)"
| "set_each obj plane_indexer lplane_indexer ((item, v) # rest) =
     (case setter obj plane_indexer lplane_indexer item v of
        Inl e \<Rightarrow> (obj, Some e)
      | Inr obj' \<Rightarrow> set_each obj' plane_indexer lplane_indexer rest)"

text \<open>\<^verbatim>\<open>can_do_equal_len\<close>, for a value of length \<open>l\<close>.\<close>

definition can_do_equal_len :: "ndframe \<Rightarrow> label list \<Rightarrow> int \<Rightarrow> nat \<Rightarrow> bool" where
  "can_do_equal_len obj item_labels lplane_indexer l =
     (length item_labels = 1
      \<and> (length (labels (axes obj ! 0)) = l \<or> lplane_indexer = int l))"

text \<open>The pairs of a column label and the value assigned to it, according to the kind of
  the value: a value that is list-like goes whole to the single column when
  \<^verbatim>\<open>can_do_equal_len\<close> holds and is otherwise dealt out to the columns, one element each;
  a scalar goes to every column. (A series has become its aligned cells by then.)\<close>

definition deal :: "ndframe \<Rightarrow> label list \<Rightarrow> int \<Rightarrow> rhs \<Rightarrow> (label \<times> rhs) list" where
  "deal obj item_labels lplane_indexer v =
     (case v of
        VScalar c \<Rightarrow> map (\<lambda>item. (item, VScalar c)) item_labels
      | VList vs \<Rightarrow>
          if can_do_equal_len obj item_labels lplane_indexer (length vs)
          then [(hd item_labels, VList vs)]
          else zip item_labels (map VScalar vs)
      | VSeries _ vs \<Rightarrow>
          if can_do_equal_len obj item_labels lplane_indexer (length vs)
          then [(hd item_labels, VList vs)]
          else zip item_labels (map VScalar vs)
      | VLists vss \<Rightarrow>
          if can_do_equal_len obj item_labels lplane_indexer (length vss)
          then [(hd item_labels, VLists vss)]
          else zip item_labels (map VList vss))"

text \<open>The part "align and set the values", on the split path. The indexer is a tuple by
  now; its entry on the info axis selects the column labels, the other entries are the
  plane indexer. The tuple is indexed at the info axis, which raises an \<^verbatim>\<open>IndexError\<close>
  when it is too short.\<close>

definition split_set :: "ndframe \<Rightarrow> indexer list \<Rightarrow> rhs \<Rightarrow> ndframe \<times> error option" where
  "split_set obj indexer v =
     (case (case v of
              VSeries six svals \<Rightarrow>
                (case align_series obj (NTuple indexer) six svals of
                   Inl e \<Rightarrow> Inl e
                 | Inr vs \<Rightarrow> Inr (VList vs))
            | _ \<Rightarrow> Inr v) of
        Inl e \<Rightarrow> (obj, Some e)
      | Inr v' \<Rightarrow>
          (let info_axis = info_axis_number obj in
           if length indexer \<le> info_axis then (obj, Some IndexError_out_of_bounds)
           else
             (case index_getitem (axes obj ! info_axis)
                     (case indexer ! info_axis of IInt i \<Rightarrow> IList [i] | idx \<Rightarrow> idx) of
                Inl e \<Rightarrow> (obj, Some e)
              | Inr item_labels \<Rightarrow>
                  (let plane_indexer = take info_axis indexer @ drop (Suc info_axis) indexer in
                   case (if info_axis > 0
                         then length_of_indexer (hd plane_indexer) (length (labels (axes obj ! 0)))
                         else Inr 0) of
                     Inl e \<Rightarrow> (obj, Some e)
                   | Inr lplane_indexer \<Rightarrow>
                       set_each obj plane_indexer lplane_indexer
                         (deal obj item_labels lplane_indexer v')))))"

text \<open>The enlargement of a 1-D target: \<^verbatim>\<open>np.concatenate([values, [value]])\<close> accepts a
  scalar only.\<close>

fun append_cell :: "index \<Rightarrow> cell list \<Rightarrow> label \<Rightarrow> rhs \<Rightarrow> error + ndframe" where
  "append_cell ix vs key (VScalar c) =
     Inr (Series (if labels ix = [] then Index [key] else safe_append_to_index ix key) (vs @ [c]))"
| "append_cell ix vs key _ = Inl ValueError"

text \<open>\<^verbatim>\<open>_setitem_with_indexer\<close> and \<^verbatim>\<open>__setitem__\<close> call each other: the first, having
  enlarged an axis, assigns through the accessor again. \<^verbatim>\<open>take_split_path\<close> is read from
  the target on entry (no axis being a \<^verbatim>\<open>MultiIndex\<close>, the later test does not change it). The first argument bounds the
  depth of these calls; \<open>None\<close> means that the bound was reached. A result is the target as
  the call leaves it and the exception, if one was raised.\<close>

fun setitem_with_indexer :: "nat \<Rightarrow> policy \<Rightarrow> ndframe \<Rightarrow> indexer arg \<Rightarrow> rhs \<Rightarrow> (ndframe \<times> error option) option"
  and setitem :: "nat \<Rightarrow> policy \<Rightarrow> ndframe \<Rightarrow> key arg \<Rightarrow> rhs \<Rightarrow> (ndframe \<times> error option) option" where
  "setitem_with_indexer 0 pol obj indexer v = None"
| "setitem_with_indexer (Suc n) pol obj indexer v =
     (case has_valid_setitem_indexer pol obj indexer of
        Inl e \<Rightarrow> Some (obj, Some e)
      | Inr _ \<Rightarrow>
          (case indexer of
             Tuple idxs \<Rightarrow>
               (case enlarge_walk obj 0 idxs [] of
                  Raised obj' e \<Rightarrow> Some (obj', Some e)
                | Items obj' key \<Rightarrow>
                    (case set_column_nan obj' key of
                       Inl e \<Rightarrow> Some (obj', Some e)
                     | Inr obj'' \<Rightarrow> setitem n Loc obj'' (Tuple (map indexer_as_key idxs)) v)
                | Walked obj' nindexer \<Rightarrow>
                    Some (if is_mixed_type obj then split_set obj' nindexer v
                          else set_values obj' (maybe_convert_ix nindexer) v))
           | Single (IMissing key) \<Rightarrow>
               (case obj of
                  Series ix vs \<Rightarrow>
                    (case append_cell ix vs key v of
                       Inl e \<Rightarrow> Some (obj, Some e)
                     | Inr obj' \<Rightarrow> Some (obj', None))
                | DataFrame ix cols rows \<Rightarrow>
                    (case reindex_axis obj (safe_append_to_index ix key) 0 of
                       Inl e \<Rightarrow> Some (obj, Some e)
                     | Inr obj' \<Rightarrow> setitem n pol obj' (Single (KScalar key)) v)
                | MixedFrame ix cols rows \<Rightarrow>
                    (case reindex_axis obj (safe_append_to_index ix key) 0 of
                       Inl e \<Rightarrow> Some (obj, Some e)
                     | Inr obj' \<Rightarrow> setitem n pol obj' (Single (KScalar key)) v))
           | Single idx \<Rightarrow>
               Some (if is_mixed_type obj then split_set obj (tuplify obj idx) v
                     else set_values obj (NSingle idx) v)))"
| "setitem n pol obj key v =
     (case resolve_setter pol obj key of
        Inl e \<Rightarrow> Some (obj, Some e)
      | Inr indexer \<Rightarrow> setitem_with_indexer n pol obj indexer v)"

section \<open>Predicates of the statements\<close>




text \<open>A table of either kind: held in one block, or of mixed dtype.\<close>

definition frame :: "bool \<Rightarrow> index \<Rightarrow> index \<Rightarrow> cell list list \<Rightarrow> ndframe" where
  "frame mixed ix cols rows = (if mixed then MixedFrame ix cols rows else DataFrame ix cols rows)"

section \<open>Example axes and containers\<close>

definition ax_int :: index where
  "ax_int = \<lparr>labels = [LInt 10, LInt 20, LInt 30], inferred_type = KInteger\<rparr>"

definition ax_abc :: index where
  "ax_abc = \<lparr>labels = [LStr ''a'', LStr ''b'', LStr ''c''], inferred_type = KString\<rparr>"


definition ax_rows :: index where
  "ax_rows = \<lparr>labels = [LStr ''u'', LStr ''v'', LStr ''w'', LStr ''x'', LStr ''y'', LStr ''z''],
     inferred_type = KString\<rparr>"

definition ax_cols :: index where
  "ax_cols = \<lparr>labels = [LStr ''A'', LStr ''B''], inferred_type = KString\<rparr>"

definition df6 :: ndframe where
  "df6 = DataFrame ax_rows ax_cols
     [[Val 0, Val 1], [Val 10, Val 11], [Val 20, Val 21], [Val 30, Val 31], [Val 40, Val 41],
      [Val 50, Val 51]]"

definition ser_int :: ndframe where
  "ser_int = Series ax_int [Val 1, Val 2, Val 3]"

definition ser_abc :: ndframe where
  "ser_abc = Series ax_abc [Val 1, Val 2, Val 3]"

definition ax_ab :: index where
  "ax_ab = \<lparr>labels = [LStr ''a'', LStr ''b''], inferred_type = KString\<rparr>"

definition df2 :: ndframe where
  "df2 = DataFrame ax_ab ax_cols [[Val 1, Val 2], [Val 3, Val 4]]"




section \<open>Verified properties\<close>

subsection \<open>The tuple read terminates\<close>

lemma first_label_like_Some:
  "first_label_like tup = Some i \<Longrightarrow> i < length tup \<and> is_label_like (tup ! i)"
  by (induction tup arbitrary: i) (auto split: if_splits)

lemma label_likes_drop:
  "i < length tup \<Longrightarrow> is_label_like (tup ! i) \<Longrightarrow>
   label_likes (take i tup @ drop (Suc i) tup) < label_likes tup"
proof -
  assume a: "i < length tup" "is_label_like (tup ! i)"
  have "tup = take i tup @ (tup ! i) # drop (Suc i) tup"
    using a(1) by (simp add: id_take_nth_drop)
  then have "label_likes tup = label_likes (take i tup @ (tup ! i) # drop (Suc i) tup)"
    by simp
  then show ?thesis using a(2) by (simp add: label_likes_def)
qed

lemma label_likes_null:
  "i < length tup \<Longrightarrow> is_label_like (tup ! i) \<Longrightarrow>
   label_likes (take i tup @ [KSlice None None None] @ drop (Suc i) tup) < label_likes tup"
  using label_likes_drop [of i tup] by (simp add: label_likes_def)

lemma lowered_smaller:
  "first_label_like tup = Some i \<Longrightarrow> take i tup @ drop (Suc i) tup = new \<Longrightarrow>
   ((sec, new), (obj, tup)) \<in> measure (\<lambda>(obj, tup). label_likes tup)"
  using label_likes_drop [of i tup] first_label_like_Some [of tup i] by auto

lemma lowered_null:
  "first_label_like tup = Some i \<Longrightarrow>
   ((sec, take i tup @ [KSlice None None None] @ drop (Suc i) tup), (obj, tup))
     \<in> measure (\<lambda>(obj, tup). label_likes tup)"
  using label_likes_null [of i tup] first_label_like_Some [of tup i] by auto

termination getitem_tuple
  apply (relation "measure (\<lambda>(obj, tup). label_likes tup)")
  subgoal by simp
  subgoal by (rule lowered_null, assumption)
  subgoal by (rule lowered_smaller, assumption, assumption)
  subgoal by (rule lowered_smaller, assumption, simp)
  done

subsection \<open>Lemmas on lookup, slices and storage\<close>

lemma positions_of_Nil_iff: "positions_of ls k = [] \<longleftrightarrow> k \<notin> set ls"
  by (auto simp: positions_of_def filter_empty_conv in_set_conv_nth)

lemma get_loc_absent: "k \<notin> set (labels ax) \<Longrightarrow> get_loc ax k = Inl KeyError"
proof -
  assume "k \<notin> set (labels ax)"
  then have "positions_of (labels ax) k = []" by (simp add: positions_of_Nil_iff)
  then show ?thesis by (simp add: get_loc_def)
qed

lemma get_loc_error: "get_loc ax k = Inl e \<Longrightarrow> e = KeyError \<and> k \<notin> set (labels ax)"
  by (auto simp: get_loc_def positions_of_Nil_iff [symmetric] split: list.splits)

lemma get_loc_present: "k \<in> set (labels ax) \<Longrightarrow> \<exists>r. get_loc ax k = Inr r"
  by (cases "get_loc ax k") (auto dest: get_loc_error)

lemma convert_scalar_position:
  "\<not> is_integer_index ax \<Longrightarrow> convert_to_indexer ax (KScalar (LInt i)) s = Inr (IInt i)"
  by (simp add: convert_to_indexer_def)

lemma convert_scalar_label:
  "is_integer k \<longrightarrow> is_integer_index ax \<Longrightarrow>
   convert_to_indexer ax (KScalar k) s =
     (case get_loc ax k of Inr r \<Rightarrow> Inr r | Inl e \<Rightarrow> if s then Inr (IMissing k) else Inl e)"
  by (cases k) (auto simp: convert_to_indexer_def split: sum.splits)





lemma unit_range:
  "0 \<le> s \<Longrightarrow> map nat (py_range s e 1) = [nat s..<nat e]"
proof -
  assume s: "0 \<le> s"
  have "map nat (py_range s e 1) = map (\<lambda>i. i + nat s) [0..<nat (e - s)]"
    using s by (simp add: py_range_def nat_add_distrib add.commute)
  also have "\<dots> = [nat s..<nat (e - s) + nat s]" by (rule map_add_upt)
  also have "\<dots> = [nat s..<nat e]"
  proof (cases "s \<le> e")
    case True
    then have "nat (e - s) + nat s = nat e" using s by linarith
    then show ?thesis by simp
  next
    case False
    then have "nat (e - s) = 0" "nat e \<le> nat s" by linarith+
    then show ?thesis by simp
  qed
  finally show ?thesis .
qed

lemma slice_indices_unit:
  "0 \<le> s \<Longrightarrow> s \<le> int n \<Longrightarrow> 0 \<le> e \<Longrightarrow> e \<le> int n \<Longrightarrow> step = None \<or> step = Some 1 \<Longrightarrow>
   slice_indices (Some s) (Some e) step n = Inr [nat s..<nat e]"
  by (auto simp: slice_indices_def clamp_bound_def unit_range)

lemma norm_pos_less: "norm_pos n i = Inr p \<Longrightarrow> p < n"
  by (auto simp: norm_pos_def split: if_splits)

lemma norm_pos_nat: "p < n \<Longrightarrow> norm_pos n (int p) = Inr p"
  by (simp add: norm_pos_def)

lemma get_loc_IInt_less: "get_loc ax l = Inr (IInt i) \<Longrightarrow> 0 \<le> i \<and> i < int (length (labels ax))"
proof -
  assume a: "get_loc ax l = Inr (IInt i)"
  then obtain p where p: "positions_of (labels ax) l = [p]" "i = int p"
    by (auto simp: get_loc_def split: list.splits)
  then have "p \<in> set (positions_of (labels ax) l)" by simp
  then have "p < length (labels ax)" by (simp add: positions_of_def)
  then show ?thesis using p by simp
qed

lemma cell_position_cases:
  "cell_position ax k = Inr p \<Longrightarrow>
   \<exists>l. k = KScalar l \<and> p < length (labels ax) \<and>
     ((is_integer l \<and> \<not> is_integer_index ax \<and> norm_pos (length (labels ax)) (the_int l) = Inr p)
      \<or> ((is_integer l \<longrightarrow> is_integer_index ax) \<and> get_loc ax l = Inr (IInt (int p))))"
proof -
  assume a: "cell_position ax k = Inr p"
  then obtain l where k: "k = KScalar l" by (cases k) (auto simp: cell_position_def)
  from a k obtain i where c: "convert_to_indexer ax (KScalar l) False = Inr (IInt i)"
    and n: "norm_pos (length (labels ax)) i = Inr p"
    by (auto simp: cell_position_def split: sum.splits indexer.splits)
  have pl: "p < length (labels ax)" using n by (rule norm_pos_less)
  show ?thesis
  proof (cases "is_integer l \<and> \<not> is_integer_index ax")
    case True
    then obtain j where "l = LInt j" by (cases l) auto
    with True c n k pl show ?thesis by (auto simp: convert_to_indexer_def)
  next
    case False
    then have f: "is_integer l \<longrightarrow> is_integer_index ax" by blast
    from c have g: "get_loc ax l = Inr (IInt i)"
      by (simp add: convert_scalar_label [OF f] split: sum.splits)
    from get_loc_IInt_less [OF g] n have "i = int p"
      by (auto simp: norm_pos_def split: if_splits)
    with g f k pl show ?thesis by auto
  qed
qed

lemma getitem_axis_row:
  assumes "cell_position ix k = Inr p" and "length rows = length (labels ix)"
  shows "getitem_axis (DataFrame ix cols rows) k 0 = Inr (RObj (Series cols (rows ! p)))"
proof -
  from cell_position_cases [OF assms(1)] obtain l where k: "k = KScalar l"
    and pl: "p < length (labels ix)"
    and d: "(is_integer l \<and> \<not> is_integer_index ix \<and> norm_pos (length (labels ix)) (the_int l) = Inr p)
      \<or> ((is_integer l \<longrightarrow> is_integer_index ix) \<and> get_loc ix l = Inr (IInt (int p)))"
    by blast
  from d show ?thesis
  proof
    assume "is_integer l \<and> \<not> is_integer_index ix \<and> norm_pos (length (labels ix)) (the_int l) = Inr p"
    then show ?thesis using k assms(2)
      by (simp add: getitem_axis_def get_axis_def get_loc_pos_def)
  next
    assume "(is_integer l \<longrightarrow> is_integer_index ix) \<and> get_loc ix l = Inr (IInt (int p))"
    then show ?thesis using k assms(2) pl
      by (auto simp: getitem_axis_def get_axis_def get_label_def host_xs_def norm_pos_nat)
  qed
qed

lemma getitem_axis_cell:
  assumes "cell_position ax k = Inr q" and "length vs = length (labels ax)"
  shows "getitem_axis (Series ax vs) k 0 = Inr (RScalar (vs ! q))"
proof -
  from cell_position_cases [OF assms(1)] obtain l where k: "k = KScalar l"
    and pl: "q < length (labels ax)"
    and d: "(is_integer l \<and> \<not> is_integer_index ax \<and> norm_pos (length (labels ax)) (the_int l) = Inr q)
      \<or> ((is_integer l \<longrightarrow> is_integer_index ax) \<and> get_loc ax l = Inr (IInt (int q)))"
    by blast
  from d show ?thesis
  proof
    assume "is_integer l \<and> \<not> is_integer_index ax \<and> norm_pos (length (labels ax)) (the_int l) = Inr q"
    then show ?thesis using k assms(2)
      by (simp add: getitem_axis_def get_axis_def get_loc_pos_def)
  next
    assume "(is_integer l \<longrightarrow> is_integer_index ax) \<and> get_loc ax l = Inr (IInt (int q))"
    then show ?thesis using k assms(2) pl
      by (auto simp: getitem_axis_def get_axis_def get_label_def host_xs_def norm_pos_nat)
  qed
qed




lemma iloc_convert_valid:
  "iloc_has_valid_type k \<Longrightarrow> \<exists>idx. iloc_convert_to_indexer k = Inr idx"
  by (cases k rule: iloc_convert_to_indexer.cases) auto

lemma convert_tuple_iloc:
  "list_all iloc_has_valid_type ks \<Longrightarrow> i0 + length ks \<le> ndim obj \<Longrightarrow>
   \<exists>idxs. convert_tuple_from ILoc obj i0 ks s = Inr idxs
     \<and> list_all2 (\<lambda>k idx. iloc_convert_to_indexer k = Inr idx) ks idxs"
proof (induction ks arbitrary: i0)
  case Nil
  then show ?case by simp
next
  case (Cons k ks)
  from Cons.prems have v: "iloc_has_valid_type k" and vs: "list_all iloc_has_valid_type ks"
    and l: "Suc i0 + length ks \<le> ndim obj" and a: "i0 < ndim obj" by simp_all
  from iloc_convert_valid [OF v] obtain idx where c: "iloc_convert_to_indexer k = Inr idx"
    by blast
  from Cons.IH [OF vs l] obtain idxs
    where r: "convert_tuple_from ILoc obj (Suc i0) ks s = Inr idxs"
      and q: "list_all2 (\<lambda>k idx. iloc_convert_to_indexer k = Inr idx) ks idxs" by blast
  show ?case using a c r q by (simp add: get_axis_def convert_to_indexer_of_def)
qed

lemma check_positional_error:
  "check_positional ax i = Inl e \<Longrightarrow> e = IndexError_cannot_enlarge"
  by (cases i) (auto split: if_splits)

lemma check_positional_all_beyond:
  "j < length idxs \<Longrightarrow> j < length axs \<Longrightarrow> idxs ! j = IInt i \<Longrightarrow>
   i \<ge> int (length (labels (axs ! j))) \<Longrightarrow>
   check_positional_all axs idxs = Inl IndexError_cannot_enlarge"
proof (induction axs arbitrary: j idxs)
  case Nil
  then show ?case by simp
next
  case (Cons ax axs)
  from Cons.prems obtain i' rest where idxs: "idxs = i' # rest" by (cases idxs) auto
  show ?case
  proof (cases "check_positional ax i'")
    case (Inl e)
    then show ?thesis using idxs by (simp add: check_positional_error)
  next
    case (Inr u)
    show ?thesis
    proof (cases j)
      case 0
      with Cons.prems idxs Inr show ?thesis by simp
    next
      case (Suc j')
      with Cons.prems idxs
      have "check_positional_all axs rest = Inl IndexError_cannot_enlarge"
        by (intro Cons.IH [of j']) simp_all
      with idxs Inr show ?thesis by simp
    qed
  qed
qed

lemma length_axes: "length (axes obj) = ndim obj"
  by (cases obj) simp_all


























lemma clamp_bound_nonneg: "0 \<le> clamp_bound (int n) 0 (int n) b"
  by (simp add: clamp_bound_def)

lemma clamp_bound_position: "0 \<le> b \<Longrightarrow> clamp_bound (int n) 0 (int n) b = min b (int n)"
  by (simp add: clamp_bound_def)

lemma slice_indices_clamped:
  "step = None \<or> step = Some 1 \<Longrightarrow>
   slice_indices (Some s) (Some e) step n
     = Inr [nat (clamp_bound (int n) 0 (int n) s)..<nat (clamp_bound (int n) 0 (int n) e)]"
  by (auto simp: slice_indices_def Let_def unit_range clamp_bound_nonneg)

lemma norm_pos_beyond:
  "i \<ge> int n \<or> i < - int n \<Longrightarrow> norm_pos n i = Inl IndexError_out_of_bounds"
  by (auto simp: norm_pos_def)

lemma norm_pos_error: "norm_pos n i = Inl e \<Longrightarrow> e = IndexError_out_of_bounds"
  by (auto simp: norm_pos_def split: if_splits)

lemma norm_all_beyond:
  "\<exists>i\<in>set ps. i \<ge> int n \<or> i < - int n \<Longrightarrow> norm_all n ps = Inl IndexError_out_of_bounds"
proof (induction ps)
  case Nil
  then show ?case by simp
next
  case (Cons p ps)
  show ?case
  proof (cases "p \<ge> int n \<or> p < - int n")
    case True
    then show ?thesis by (simp add: norm_pos_beyond)
  next
    case False
    with Cons.prems have "\<exists>i\<in>set ps. i \<ge> int n \<or> i < - int n" by auto
    with Cons.IH have "norm_all n ps = Inl IndexError_out_of_bounds" by simp
    then show ?thesis by (auto split: sum.splits dest: norm_pos_error)
  qed
qed

lemma ixs_beyond:
  "wf_frame obj \<Longrightarrow> get_axis obj axis = Inr ax \<Longrightarrow>
   i \<ge> int (length (labels ax)) \<or> i < - int (length (labels ax)) \<Longrightarrow>
   ixs obj i axis = Inl IndexError_out_of_bounds"
proof (cases obj)
  case (Series ix vs)
  assume "wf_frame obj" "get_axis obj axis = Inr ax"
    "i \<ge> int (length (labels ax)) \<or> i < - int (length (labels ax))"
  with Series show ?thesis by (auto simp: get_axis_def norm_pos_beyond split: if_splits)
next
  case (DataFrame ix cols rows)
  assume "wf_frame obj" "get_axis obj axis = Inr ax"
    "i \<ge> int (length (labels ax)) \<or> i < - int (length (labels ax))"
  with DataFrame show ?thesis
    by (cases axis) (auto simp: get_axis_def norm_pos_beyond less_Suc_eq split: if_splits)
next
  case (MixedFrame ix cols rows)
  assume "wf_frame obj" "get_axis obj axis = Inr ax"
    "i \<ge> int (length (labels ax)) \<or> i < - int (length (labels ax))"
  with MixedFrame show ?thesis
    by (cases axis) (auto simp: get_axis_def norm_pos_beyond less_Suc_eq split: if_splits)
qed

subsection \<open>What an assignment leaves untouched\<close>

lemma frame_simps [simp]:
  "ndim (frame b ix cols rows) = 2"
  "axes (frame b ix cols rows) = [ix, cols]"
  "info_axis_number (frame b ix cols rows) = 1"
  "is_mixed_type (frame b ix cols rows) = b"
  "wf_frame (frame b ix cols rows)
     = (length rows = length (labels ix) \<and> list_all (\<lambda>r. length r = length (labels cols)) rows)"
  "get_axis (frame b ix cols rows) 0 = Inr ix"
  "get_axis (frame b ix cols rows) (Suc 0) = Inr cols"
  by (simp_all add: frame_def get_axis_def)

lemma frame_inject [simp]:
  "frame b ix cols rows = frame b' ix' cols' rows' \<longleftrightarrow> b = b' \<and> ix = ix' \<and> cols = cols' \<and> rows = rows'"
  by (auto simp: frame_def)






















































lemma reindex_axis_series:
  "distinct (labels ix) \<Longrightarrow>
   reindex_axis (Series ix vs) new 0 = Inr (Series new (conform (labels ix) vs NaN (labels new)))"
  by simp



text \<open>
  Claim C1. A scalar integer key under the legacy-mixed accessor: on an axis whose inferred
  kind is not integer the key is the position (the resolver returns it as it is, and the
  read goes through the positional \<^verbatim>\<open>_get_loc\<close>); on an integer-labeled axis it is looked up
  as a label (the read goes through \<^verbatim>\<open>_get_label\<close>), and a label that is absent is a
  \<^verbatim>\<open>KeyError\<close>. The witness is the spec's scenario: on the axis \<open>[10, 20, 30]\<close> the read of
  key \<open>1\<close> raises, although position \<open>1\<close> exists (the position-only read returns it).
\<close>

theorem ix_integer_key_position_or_label: 
  "get_axis obj axis = Inr ax \<Longrightarrow>
   (\<not> is_integer_index ax \<longrightarrow>
       convert_to_indexer ax (KScalar (LInt i)) is_setter = Inr (IInt i)
     \<and> getitem_axis obj (KScalar (LInt i)) axis = get_loc_pos obj i axis)
   \<and> (is_integer_index ax \<longrightarrow>
       convert_to_indexer ax (KScalar (LInt i)) False = get_loc ax (LInt i)
     \<and> getitem_axis obj (KScalar (LInt i)) axis = get_label obj (LInt i) axis
     \<and> (LInt i \<notin> set (labels ax) \<longrightarrow>
          convert_to_indexer ax (KScalar (LInt i)) False = Inl KeyError
        \<and> getitem_axis obj (KScalar (LInt i)) axis = Inl KeyError))"
  by (auto simp: convert_scalar_position convert_scalar_label getitem_axis_def get_label_def
        host_xs_def get_loc_absent split: sum.splits)

theorem ix_integer_key_position_or_label_witness:
  "getitem_axis ser_int (KScalar (LInt 1)) 0 = Inl KeyError
   \<and> convert_to_indexer ax_int (KScalar (LInt 1)) False = Inl KeyError
   \<and> iloc_getitem_axis ser_int (KScalar (LInt 1)) 0 = Inr (RScalar (Val 2))
   \<and> convert_to_indexer ax_abc (KScalar (LInt 1)) False = Inr (IInt 1)
   \<and> getitem_axis ser_abc (KScalar (LInt 1)) 0 = Inr (RScalar (Val 2))"
proof -
  have a: "get_axis ser_int 0 = Inr ax_int" by (simp add: get_axis_def ser_int_def)
  have b: "get_axis ser_abc 0 = Inr ax_abc" by (simp add: get_axis_def ser_abc_def)
  have i: "is_integer_index ax_int" "\<not> is_integer_index ax_abc"
    by (simp_all add: is_integer_index_def ax_int_def ax_abc_def)
  have n: "LInt 1 \<notin> set (labels ax_int)" by (simp add: ax_int_def)
  have p: "iloc_getitem_axis ser_int (KScalar (LInt 1)) 0 = Inr (RScalar (Val 2))"
    by (simp add: iloc_getitem_axis_def get_loc_pos_def ser_int_def norm_pos_def)
  have q: "get_loc_pos ser_abc 1 0 = Inr (RScalar (Val 2))"
    by (simp add: get_loc_pos_def ser_abc_def norm_pos_def)
  from ix_integer_key_position_or_label [OF a, of 1 False] i n
  have x: "convert_to_indexer ax_int (KScalar (LInt 1)) False = Inl KeyError"
    "getitem_axis ser_int (KScalar (LInt 1)) 0 = Inl KeyError" by blast+
  from ix_integer_key_position_or_label [OF b, of 1 False] i
  have y: "convert_to_indexer ax_abc (KScalar (LInt 1)) False = Inr (IInt 1)"
    "getitem_axis ser_abc (KScalar (LInt 1)) 0 = get_loc_pos ser_abc 1 0" by blast+
  show ?thesis using x y p q by simp
qed










text \<open>Claim C5 as stated fails for a label: the key \<open>'z'\<close>, absent from the axis, is
  refused with \<^verbatim>\<open>ValueError\<close>, not with the cannot-enlarge error.\<close>

theorem iloc_write_beyond_axis_cannot_enlarge_counterexample:
  "setitem 1 ILoc ser_abc (Single (KScalar (LStr ''z''))) (VScalar (Val 9))
     = Some (ser_abc, Some ValueError)
   \<and> setitem 1 ILoc ser_abc (Single (KScalar (LStr ''z''))) (VScalar (Val 9))
     \<noteq> Some (ser_abc, Some IndexError_cannot_enlarge)"
  by code_simp

text \<open>
  Claim C5, as amended. Under the position-only accessor, a write whose key is a scalar
  integer position at or beyond the length of its axis, alone or as an entry of a tuple key
  of valid entries, raises the \<^verbatim>\<open>IndexError\<close> "cannot enlarge its target object" and leaves
  the target as it was; so does a missing-key indexer handed to \<^verbatim>\<open>_setitem_with_indexer\<close>.
  A scalar key that is a label and not an integer is refused by the accessor's validity
  gate with \<^verbatim>\<open>ValueError\<close>, the target again untouched.
\<close>

theorem iloc_write_beyond_axis_cannot_enlarge:
  "(i \<ge> int (length (labels (axes obj ! 0))) \<longrightarrow>
      setitem (Suc n) ILoc obj (Single (KScalar (LInt i))) v
        = Some (obj, Some IndexError_cannot_enlarge))
   \<and> (length ks \<le> ndim obj \<and> list_all iloc_has_valid_type ks \<and> j < length ks
        \<and> ks ! j = KScalar (LInt i) \<and> i \<ge> int (length (labels (axes obj ! j))) \<longrightarrow>
      setitem (Suc n) ILoc obj (Tuple ks) v = Some (obj, Some IndexError_cannot_enlarge))
   \<and> setitem (Suc n) ILoc obj (Single (KScalar (LStr s))) v = Some (obj, Some ValueError)
   \<and> setitem_with_indexer (Suc n) ILoc obj (Single (IMissing k)) v
        = Some (obj, Some IndexError_cannot_enlarge)"
proof (intro conjI impI)
  assume b: "i \<ge> int (length (labels (axes obj ! 0)))"
  have n: "0 < ndim obj" by (cases obj) simp_all
  have "check_positional_all (axes obj) (tuplify obj (IInt i)) = Inl IndexError_cannot_enlarge"
    using b n by (intro check_positional_all_beyond [of 0]) (simp_all add: tuplify_def length_axes)
  then show "setitem (Suc n) ILoc obj (Single (KScalar (LInt i))) v
        = Some (obj, Some IndexError_cannot_enlarge)"
    using n
    by (simp add: resolve_setter_def get_axis_def convert_to_indexer_of_def
          has_valid_setitem_indexer_def has_valid_positional_setitem_indexer_def)
next
  assume a: "length ks \<le> ndim obj \<and> list_all iloc_has_valid_type ks \<and> j < length ks
        \<and> ks ! j = KScalar (LInt i) \<and> i \<ge> int (length (labels (axes obj ! j)))"
  then obtain idxs where c: "convert_tuple_from ILoc obj 0 ks True = Inr idxs"
    and q: "list_all2 (\<lambda>k idx. iloc_convert_to_indexer k = Inr idx) ks idxs"
    using convert_tuple_iloc [of ks 0 obj True] by auto
  from q have l: "length idxs = length ks" by (simp add: list_all2_lengthD)
  from q a have "iloc_convert_to_indexer (ks ! j) = Inr (idxs ! j)"
    by (auto simp: list_all2_conv_all_nth)
  with a have "idxs ! j = IInt i" by simp
  moreover from a have "j < length ks" "length ks \<le> ndim obj"
    "i \<ge> int (length (labels (axes obj ! j)))" by simp_all
  ultimately have "check_positional_all (axes obj) idxs = Inl IndexError_cannot_enlarge"
    using l check_positional_all_beyond [of j idxs "axes obj" i] by (simp add: length_axes)
  then show "setitem (Suc n) ILoc obj (Tuple ks) v = Some (obj, Some IndexError_cannot_enlarge)"
    using a c
    by (simp add: resolve_setter_def has_valid_setitem_indexer_def
          has_valid_positional_setitem_indexer_def)
next
  have n: "0 < ndim obj" by (cases obj) simp_all
  then show "setitem (Suc n) ILoc obj (Single (KScalar (LStr s))) v = Some (obj, Some ValueError)"
    by (simp add: resolve_setter_def get_axis_def convert_to_indexer_of_def)
next
  show "setitem_with_indexer (Suc n) ILoc obj (Single (IMissing k)) v
        = Some (obj, Some IndexError_cannot_enlarge)"
    by (simp add: has_valid_setitem_indexer_def has_valid_positional_setitem_indexer_def)
qed

theorem iloc_write_beyond_axis_cannot_enlarge_witness:
  "setitem 1 ILoc ser_abc (Single (KScalar (LInt 3))) (VScalar (Val 9))
     = Some (ser_abc, Some IndexError_cannot_enlarge)
   \<and> setitem 1 ILoc df2 (Tuple [KScalar (LInt 0), KScalar (LInt 2)]) (VScalar (Val 9))
     = Some (df2, Some IndexError_cannot_enlarge)
   \<and> setitem 1 ILoc df2 (Tuple [KScalar (LInt 0), KScalar (LInt 1)]) (VScalar (Val 9))
     = Some (DataFrame ax_ab ax_cols [[Val 1, Val 9], [Val 3, Val 4]], None)"
proof -
  have a: "(3::int) \<ge> int (length (labels (axes ser_abc ! 0)))"
    by (simp add: ser_abc_def ax_abc_def)
  have b: "length [KScalar (LInt 0), KScalar (LInt 2)] \<le> ndim df2
     \<and> list_all iloc_has_valid_type [KScalar (LInt 0), KScalar (LInt 2)]
     \<and> 1 < length [KScalar (LInt 0), KScalar (LInt 2)]
     \<and> [KScalar (LInt 0), KScalar (LInt 2)] ! 1 = KScalar (LInt 2)
     \<and> (2::int) \<ge> int (length (labels (axes df2 ! 1)))"
    by (simp add: df2_def ax_cols_def)
  have c: "setitem 1 ILoc df2 (Tuple [KScalar (LInt 0), KScalar (LInt 1)]) (VScalar (Val 9))
     = Some (DataFrame ax_ab ax_cols [[Val 1, Val 9], [Val 3, Val 4]], None)" by code_simp
  from iloc_write_beyond_axis_cannot_enlarge [where i = 3 and obj = ser_abc and n = 0 and v = "VScalar (Val 9)"]
       iloc_write_beyond_axis_cannot_enlarge [where i = 2 and obj = df2 and n = 0 and v = "VScalar (Val 9)"
             and ks = "[KScalar (LInt 0), KScalar (LInt 2)]" and j = 1] a b c
  show ?thesis by simp
qed




text \<open>
  Claim C7. A position slice \<open>s:e\<close> of step 1 under the position-only accessor selects, on an
  axis of length \<open>n\<close>, the positions from \<open>s\<close> up to \<open>e - 1\<close> that the axis has, the stop
  excluded and bounds out of range clamped to the axis: for non-negative bounds the
  positions \<open>min s n, ..., min e n - 1\<close> (a negative bound counts from the end, as a
  position does). A scalar position outside \<open>-n..n-1\<close>, and a list holding one, is an
  \<^verbatim>\<open>IndexError\<close>. The slice is cut by the host's \<^verbatim>\<open>_slice\<close>, which is modelled from the
  spec.
\<close>

theorem iloc_unit_slice_clamped:
  assumes "get_axis obj axis = Inr ax" and "step = None \<or> step = Some 1"
  shows "iloc_getitem_axis obj (KSlice (Some (LInt s)) (Some (LInt e)) step) axis
       = Inr (RObj (restrict obj
                [nat (clamp_bound (int (length (labels ax))) 0 (int (length (labels ax))) s)
                 ..<nat (clamp_bound (int (length (labels ax))) 0 (int (length (labels ax))) e)]
                axis))
     \<and> (0 \<le> s \<and> 0 \<le> e \<longrightarrow>
          iloc_getitem_axis obj (KSlice (Some (LInt s)) (Some (LInt e)) step) axis
            = Inr (RObj (restrict obj
                     [nat (min s (int (length (labels ax))))
                      ..<nat (min e (int (length (labels ax))))] axis)))
     \<and> (wf_frame obj \<and> (i \<ge> int (length (labels ax)) \<or> i < - int (length (labels ax))) \<longrightarrow>
          iloc_getitem_axis obj (KScalar (LInt i)) axis = Inl IndexError_out_of_bounds)
     \<and> (list_all is_integer ks
          \<and> (\<exists>k\<in>set ks. the_int k \<ge> int (length (labels ax))
                          \<or> the_int k < - int (length (labels ax))) \<longrightarrow>
          iloc_getitem_axis obj (KList ks) axis = Inl IndexError_out_of_bounds)"
proof -
  let ?n = "length (labels ax)"
  have a: "iloc_getitem_axis obj (KSlice (Some (LInt s)) (Some (LInt e)) step) axis
       = Inr (RObj (restrict obj
                [nat (clamp_bound (int ?n) 0 (int ?n) s)..<nat (clamp_bound (int ?n) 0 (int ?n) e)]
                axis))"
    using assms
    by (auto simp: iloc_getitem_axis_def iloc_get_slice_axis_def need_slice_def host_slice_def
          slice_positions_def slice_indices_clamped)
  have b: "0 \<le> s \<and> 0 \<le> e \<longrightarrow>
          iloc_getitem_axis obj (KSlice (Some (LInt s)) (Some (LInt e)) step) axis
            = Inr (RObj (restrict obj [nat (min s (int ?n))..<nat (min e (int ?n))] axis))"
    using a by (simp add: clamp_bound_position)
  have c: "wf_frame obj \<and> (i \<ge> int ?n \<or> i < - int ?n) \<longrightarrow>
          iloc_getitem_axis obj (KScalar (LInt i)) axis = Inl IndexError_out_of_bounds"
    using assms(1) by (simp add: iloc_getitem_axis_def get_loc_pos_def ixs_beyond)
  have d: "list_all is_integer ks
          \<and> (\<exists>k\<in>set ks. the_int k \<ge> int ?n \<or> the_int k < - int ?n) \<longrightarrow>
          iloc_getitem_axis obj (KList ks) axis = Inl IndexError_out_of_bounds"
  proof
    assume h: "list_all is_integer ks
          \<and> (\<exists>k\<in>set ks. the_int k \<ge> int ?n \<or> the_int k < - int ?n)"
    then have "\<exists>i\<in>set (map the_int ks). i \<ge> int ?n \<or> i < - int ?n" by auto
    then have "norm_all ?n (map the_int ks) = Inl IndexError_out_of_bounds"
      by (rule norm_all_beyond)
    with h assms(1) show "iloc_getitem_axis obj (KList ks) axis = Inl IndexError_out_of_bounds"
      by (simp add: iloc_getitem_axis_def taken_def take_axis_def)
  qed
  from a b c d show ?thesis by blast
qed

theorem iloc_unit_slice_clamped_witness:
  "iloc_getitem_axis ser_abc (KSlice (Some (LInt 1)) (Some (LInt 3)) None) 0
     = Inr (RObj (Series \<lparr>labels = [LStr ''b'', LStr ''c''], inferred_type = KString\<rparr>
                    [Val 2, Val 3]))
   \<and> iloc_getitem_axis ser_abc (KSlice (Some (LInt 1)) (Some (LInt 10)) None) 0
     = Inr (RObj (Series \<lparr>labels = [LStr ''b'', LStr ''c''], inferred_type = KString\<rparr>
                    [Val 2, Val 3]))
   \<and> iloc_getitem_axis ser_abc (KScalar (LInt 3)) 0 = Inl IndexError_out_of_bounds
   \<and> iloc_getitem_axis ser_abc (KList [LInt 0, LInt 3]) 0 = Inl IndexError_out_of_bounds"
proof -
  have a: "get_axis ser_abc 0 = Inr ax_abc" by (simp add: get_axis_def ser_abc_def)
  have w: "wf_frame ser_abc" by (simp add: ser_abc_def ax_abc_def)
  have r: "restrict ser_abc [Suc 0..<3] 0
     = Series \<lparr>labels = [LStr ''b'', LStr ''c''], inferred_type = KString\<rparr> [Val 2, Val 3]"
    by code_simp
  have l: "int (length (labels ax_abc)) = 3" "length (labels ax_abc) = 3"
    by (simp_all add: ax_abc_def)
  have n: "None = (None::int option) \<or> None = Some (1::int)" by simp
  have c: "clamp_bound 3 0 3 1 = 1" "clamp_bound 3 0 3 3 = 3" "clamp_bound 3 0 3 10 = 3"
    by (simp_all add: clamp_bound_def)
  have k: "list_all is_integer [LInt 0, LInt 3]
     \<and> (\<exists>k\<in>set [LInt 0, LInt 3]. the_int k \<ge> int (length (labels ax_abc))
            \<or> the_int k < - int (length (labels ax_abc)))"
    by (simp add: l)
  from iloc_unit_slice_clamped [OF a n, of 1 3 3 "[LInt 0, LInt 3]"] w k
  have x: "iloc_getitem_axis ser_abc (KSlice (Some (LInt 1)) (Some (LInt 3)) None) 0
             = Inr (RObj (restrict ser_abc [Suc 0..<3] 0))"
    "iloc_getitem_axis ser_abc (KScalar (LInt 3)) 0 = Inl IndexError_out_of_bounds"
    "iloc_getitem_axis ser_abc (KList [LInt 0, LInt 3]) 0 = Inl IndexError_out_of_bounds"
    by (simp_all add: l c)
  from iloc_unit_slice_clamped [OF a n, of 1 10]
  have y: "iloc_getitem_axis ser_abc (KSlice (Some (LInt 1)) (Some (LInt 10)) None) 0
             = Inr (RObj (restrict ser_abc [Suc 0..<3] 0))"
    by (simp add: l c)
  from x y show ?thesis by (simp add: r)
qed




text \<open>
  Claim C9. On a 2-axis container, a tuple of two scalar keys each of which resolves its
  axis to one position (an integer position on an axis that is not integer-labeled, or a
  label standing once) reads the single cell at these positions: the lowering of
  \<^verbatim>\<open>_getitem_lowerdim\<close> takes the row as a series, applies the second key to it and
  returns the scalar, and so does \<^verbatim>\<open>__getitem__\<close>. The witness is the key \<open>(5, "B")\<close>.
\<close>

theorem tuple_of_scalars_reads_cell:
  assumes "wf_frame (DataFrame ix cols rows)"
    and "cell_position ix k0 = Inr p" and "cell_position cols k1 = Inr q"
  shows "getitem_tuple (DataFrame ix cols rows) [k0, k1] = Inr (RScalar (rows ! p ! q))
       \<and> getitem (DataFrame ix cols rows) (Tuple [k0, k1]) = Inr (RScalar (rows ! p ! q))"
proof -
  from assms(1) have len: "length rows = length (labels ix)"
    and all: "list_all (\<lambda>r. length r = length (labels cols)) rows" by simp_all
  from cell_position_cases [OF assms(2)] obtain l0 where k0: "k0 = KScalar l0"
    and p: "p < length (labels ix)" by blast
  from p len all have rl: "length (rows ! p) = length (labels cols)"
    by (simp add: list_all_length)
  have row: "getitem_axis (DataFrame ix cols rows) k0 0 = Inr (RObj (Series cols (rows ! p)))"
    using assms(2) len by (rule getitem_axis_row)
  have cell: "getitem_axis (Series cols (rows ! p)) k1 0 = Inr (RScalar (rows ! p ! q))"
    using assms(3) rl by (rule getitem_axis_cell)
  have t: "getitem_tuple (DataFrame ix cols rows) [k0, k1] = Inr (RScalar (rows ! p ! q))"
    using k0 row cell by (simp add: getitem_tuple.simps [of _ "[k0, k1]"])
  have "get_value (DataFrame ix cols rows) [k0, k1] = Inr (RScalar (rows ! p ! q))"
    using assms(2,3) by simp
  then show ?thesis using t by (simp add: getitem_def)
qed

theorem tuple_of_scalars_reads_cell_witness:
  "getitem df6 (Tuple [KScalar (LInt 5), KScalar (LStr ''B'')]) = Inr (RScalar (Val 51))
   \<and> getitem_tuple df6 [KScalar (LInt 5), KScalar (LStr ''B'')] = Inr (RScalar (Val 51))"
proof -
  have w: "wf_frame (DataFrame ax_rows ax_cols
     [[Val 0, Val 1], [Val 10, Val 11], [Val 20, Val 21], [Val 30, Val 31], [Val 40, Val 41],
      [Val 50, Val 51]])" by (simp add: ax_rows_def ax_cols_def)
  have p: "cell_position ax_rows (KScalar (LInt 5)) = Inr 5" by code_simp
  have q: "cell_position ax_cols (KScalar (LStr ''B'')) = Inr 1" by code_simp
  from tuple_of_scalars_reads_cell [OF w p q] show ?thesis by (simp add: df6_def)
qed



end
